theory Spec2Isabelle
  imports Main "HOL-Library.Log_Nat"
begin

section \<open>Strings: the Python built-ins the script relies on\<close>

text \<open>
  \<^verbatim>\<open>s.find(sub)\<close>: the lowest index at which \<open>sub\<close> occurs in \<open>s\<close>, and
  \<open>-1\<close> when it does not occur.
\<close>

fun str_find :: "string \<Rightarrow> string \<Rightarrow> int" where
  "str_find [] sub = (if sub = [] then 0 else - 1)"
| "str_find (c # cs) sub =
     (if take (length sub) (c # cs) = sub then 0
      else (let r = str_find cs sub in if r < 0 then - 1 else r + 1))"

text \<open>\<^verbatim>\<open>str(i)\<close> for a non-negative integer: its decimal digits.\<close>

definition digit_char :: "nat \<Rightarrow> char" where
  "digit_char d = char_of (48 + d)"

fun str_nat :: "nat \<Rightarrow> string" where
  "str_nat n = (if n < 10 then [digit_char n] else str_nat (n div 10) @ [digit_char (n mod 10)])"

declare str_nat.simps [simp del]

section \<open>Channel selection (lines 36-43)\<close>

text \<open>
  \<^verbatim>\<open>
  ACQ_CH = list()
  if (channels := args.channels) == None:
      channels = '12'
  for i in range(1,5):
      if (channels.find(str(i)) >= 0):
          ACQ_CH.append(i)
  \<close>
  The option \<open>-c\<close> is a string when given and \<open>None\<close> when absent.
\<close>

definition ACQ_CH :: "string option \<Rightarrow> nat list" where
  "ACQ_CH channels_arg =
     (let channels = (case channels_arg of None \<Rightarrow> ''12'' | Some c \<Rightarrow> c)
      in filter (\<lambda>i. str_find channels (str_nat i) \<ge> 0) [1 ..< 5])"

section \<open>More string built-ins\<close>

text \<open>
  \<^verbatim>\<open>s.split(sep)\<close> with a one-character separator: the pieces between the
  separators, empty pieces included; the empty string splits into one empty piece.
\<close>

fun split_on :: "char \<Rightarrow> string \<Rightarrow> string list" where
  "split_on sep [] = [[]]"
| "split_on sep (x # xs) =
     (if x = sep then [] # split_on sep xs
      else (case split_on sep xs of
              [] \<Rightarrow> [[x]]
            | w # ws \<Rightarrow> (x # w) # ws))"

text \<open>\<^verbatim>\<open>s.replace(':', '-')\<close>, on single characters.\<close>

definition replace_char :: "char \<Rightarrow> char \<Rightarrow> string \<Rightarrow> string" where
  "replace_char old new s = map (\<lambda>ch. if ch = old then new else ch) s"

text \<open>
  \<^verbatim>\<open>str(ser.readline(), 'utf-8')[:-1]\<close>: the line as received, without its last
  character (whatever that character is; the empty line stays empty).
\<close>

definition strip_last :: "string \<Rightarrow> string" where
  "strip_last line = butlast line"

section \<open>Exceptions and exits\<close>

datatype exn = IndexError | ValueError | SerialException

text \<open>How the script ends: it falls off its last line, calls \<^verbatim>\<open>sys.exit()\<close>,
  or dies of an exception that nothing catches (the script has no \<^verbatim>\<open>try\<close>).\<close>

datatype outcome = Completed | SysExit | Raised exn

definition bindE :: "exn + 'a \<Rightarrow> ('a \<Rightarrow> exn + 'b) \<Rightarrow> exn + 'b" where
  "bindE m f = (case m of Inl e \<Rightarrow> Inl e | Inr a \<Rightarrow> f a)"

text \<open>\<^verbatim>\<open>xs[i]\<close> for a non-negative index: IndexError out of range.\<close>

definition index :: "'a list \<Rightarrow> nat \<Rightarrow> exn + 'a" where
  "index xs i = (if i < length xs then Inr (xs ! i) else Inl IndexError)"

section \<open>The numeric library the script calls\<close>

text \<open>
  The script computes with Python floats and a numpy array of them. The operations it
  uses are parameters of the model, so that what is proved of the pipeline holds for
  every floating-point semantics:
  \<^item> \<open>parse_float\<close>: \<^verbatim>\<open>float(s)\<close> of a string, \<open>None\<close> where it raises ValueError;
  \<^item> \<open>float_of_nat\<close>: \<^verbatim>\<open>float(x)\<close> of a non-negative integer;
  \<^item> \<open>fmul\<close>, \<open>fadd\<close>, \<open>fsub\<close>: \<^verbatim>\<open>*\<close>, \<^verbatim>\<open>+\<close>, \<^verbatim>\<open>-\<close> on floats;
  \<^item> \<open>py_round\<close>: the built-in \<^verbatim>\<open>round(x, ndigits)\<close>;
  \<^item> \<open>np_round\<close>: \<^verbatim>\<open>numpy.round(a, decimals)\<close> on one element;
  \<^item> \<open>path_join\<close>: \<^verbatim>\<open>os.path.join(a, b)\<close>.
\<close>

record 'f lib =
  parse_float :: "string \<Rightarrow> 'f option"
  float_of_nat :: "nat \<Rightarrow> 'f"
  fmul :: "'f \<Rightarrow> 'f \<Rightarrow> 'f"
  fadd :: "'f \<Rightarrow> 'f \<Rightarrow> 'f"
  fsub :: "'f \<Rightarrow> 'f \<Rightarrow> 'f"
  py_round :: "'f \<Rightarrow> nat \<Rightarrow> 'f"
  np_round :: "'f \<Rightarrow> nat \<Rightarrow> 'f"
  path_join :: "string \<Rightarrow> string \<Rightarrow> string"

definition to_float :: "'f lib \<Rightarrow> string \<Rightarrow> exn + 'f" where
  "to_float L s = (case parse_float L s of None \<Rightarrow> Inl ValueError | Some v \<Rightarrow> Inr v)"

text \<open>
  \<^verbatim>\<open>scipy.signal.savgol_filter(x, window_length, polyorder)\<close> with its default mode
  \<^verbatim>\<open>'interp'\<close>, as far as the script depends on it: the library rejects, with a
  ValueError, a polynomial order that is not below the window length and a window longer
  than the series. The fitted values are the parameter \<open>fit\<close>. (Whether an even window is
  rejected depends on the library's version; the script's window is the constant 11.)
\<close>

definition savgol_filter ::
  "('f list \<Rightarrow> nat \<Rightarrow> nat \<Rightarrow> 'f list) \<Rightarrow> 'f list \<Rightarrow> nat \<Rightarrow> nat \<Rightarrow> exn + 'f list" where
  "savgol_filter fit x window_length polyorder =
     (if polyorder \<ge> window_length then Inl ValueError
      else if window_length > length x then Inl ValueError
      else Inr (fit x window_length polyorder))"

section \<open>Constants (lines 15-16)\<close>

definition smooth_window :: nat where
  "smooth_window = 11"

definition smooth_order :: nat where
  "smooth_order = 2"

section \<open>Preamble parsing (lines 120-128)\<close>

record 'f preamble =
  WFID :: string
  XUNIT :: string
  XINCRement :: 'f
  XZERO :: 'f
  YUNIT :: string
  YMULTiplier :: 'f
  YZERO :: 'f
  YOFF :: 'f

text \<open>
  The fields are read in the order of the source, so that the first failing access
  decides the exception: index 6, 11, 8, 10, 15, 12, 13, 14. The position \<open>YOFF\<close> is
  field 14 times the multiplier.
\<close>

definition read_preamble :: "'f lib \<Rightarrow> string list \<Rightarrow> exn + 'f preamble" where
  "read_preamble L ch_conf =
     bindE (index ch_conf 6) (\<lambda>wfid.
     bindE (index ch_conf 11) (\<lambda>xunit.
     bindE (bindE (index ch_conf 8) (to_float L)) (\<lambda>xinc.
     bindE (bindE (index ch_conf 10) (to_float L)) (\<lambda>xzero.
     bindE (index ch_conf 15) (\<lambda>yunit.
     bindE (bindE (index ch_conf 12) (to_float L)) (\<lambda>ymult.
     bindE (bindE (index ch_conf 13) (to_float L)) (\<lambda>yzero.
     bindE (bindE (index ch_conf 14) (to_float L)) (\<lambda>pos.
     Inr \<lparr>WFID = wfid, XUNIT = xunit, XINCRement = xinc, XZERO = xzero, YUNIT = yunit,
          YMULTiplier = ymult, YZERO = yzero, YOFF = fmul L pos ymult\<rparr>))))))))"

section \<open>Curve decoding and calibration (lines 132-145)\<close>

text \<open>
  \<^verbatim>\<open>[float(d)*YMULTiplier for d in response.split(',')]\<close>: the first token that
  is not a number raises ValueError.
\<close>

fun scale_tokens :: "'f lib \<Rightarrow> 'f \<Rightarrow> string list \<Rightarrow> exn + 'f list" where
  "scale_tokens L ymult [] = Inr []"
| "scale_tokens L ymult (d # ds) =
     bindE (to_float L d) (\<lambda>v.
     bindE (scale_tokens L ymult ds) (\<lambda>rest. Inr (fmul L v ymult # rest)))"

definition decode_Y :: "'f lib \<Rightarrow> 'f \<Rightarrow> string \<Rightarrow> exn + 'f list" where
  "decode_Y L ymult response = scale_tokens L ymult (split_on CHR '','' response)"

text \<open>
  \<^verbatim>\<open>[round(float(x)*XINCRement + XZERO, 15) for x in range(len(ch_data_Y))]\<close>
\<close>

definition decode_X :: "'f lib \<Rightarrow> 'f \<Rightarrow> 'f \<Rightarrow> nat \<Rightarrow> 'f list" where
  "decode_X L xinc xzero n =
     map (\<lambda>x. py_round L (fadd L (fmul L (float_of_nat L x) xinc) xzero) 15) [0 ..< n]"

text \<open>\<^verbatim>\<open>np.round(ch_data_Y - YOFF, 15)\<close>, elementwise.\<close>

definition remove_offset :: "'f lib \<Rightarrow> 'f \<Rightarrow> 'f list \<Rightarrow> 'f list" where
  "remove_offset L yoff ys = map (\<lambda>y. np_round L (fsub L y yoff) 15) ys"

section \<open>The serial port and the files\<close>

text \<open>
  The state of a run: whether the port is open, the commands written to it so far (in
  order), the lines the instrument will still send (one per \<^verbatim>\<open>readline\<close>), and
  the files written so far (in order; a file is its name and its rows). Console output
  and the plot window are not part of the state. Not modelled either: the creation of
  the output directory (lines 31-34), failures of the file system, failures of the port
  once it is open, and bytes that are not UTF-8 (a line is the string it decodes to).
\<close>

datatype 'f cell = Text string | TextList "string list" | Num 'f

record 'f state =
  is_open :: bool
  written :: "string list"
  pending :: "string list"
  files :: "(string \<times> 'f cell list list) list"

definition ser_write :: "string \<Rightarrow> 'f state \<Rightarrow> 'f state" where
  "ser_write cmd s = s\<lparr>written := written s @ [cmd]\<rparr>"

text \<open>
  \<^verbatim>\<open>ser.readline()\<close>: the next line of the instrument; when the instrument sends
  nothing before the timeout, the empty line.
\<close>

definition ser_readline :: "'f state \<Rightarrow> string \<times> 'f state" where
  "ser_readline s =
     (case pending s of
        [] \<Rightarrow> ([], s)
      | l # ls \<Rightarrow> (l, s\<lparr>pending := ls\<rparr>))"

text \<open>Every command ends with a line feed.\<close>

definition nl :: "string \<Rightarrow> string" where
  "nl cmd = cmd @ [CHR 0x0A]"

definition query :: "string \<Rightarrow> 'f state \<Rightarrow> string \<times> 'f state" where
  "query cmd s = (let (l, s') = ser_readline (ser_write cmd s) in (strip_last l, s'))"

section \<open>One channel (the loop body, lines 108-158)\<close>

record 'f channel_data =
  filename :: string
  ch_conf :: "string list"
  conf :: "'f preamble"
  ch_data_X :: "'f list"
  ch_data_Y :: "'f list"

text \<open>
  Lines 108-133: select the source, build the file name, read the preamble, read the
  curve, scale it, and compute the time axis.
\<close>

definition make_filename :: "'f lib \<Rightarrow> string \<Rightarrow> string \<Rightarrow> string \<Rightarrow> string" where
  "make_filename L now save_path dat_sou =
     path_join L save_path (replace_char CHR '':'' CHR ''-'' (now @ '' '' @ dat_sou @ ''.csv''))"

definition acquire_channel ::
  "'f lib \<Rightarrow> string \<Rightarrow> string \<Rightarrow> nat \<Rightarrow> 'f state \<Rightarrow> (exn + 'f channel_data) \<times> 'f state" where
  "acquire_channel L now save_path CH_number s =
     (let s1 = ser_write (nl (''DATa:SOU CH'' @ str_nat CH_number)) s;
          (dat_sou, s2) = query (nl ''DATa:SOU?'') s1;
          fname = make_filename L now save_path dat_sou;
          (line, s3) = query (nl ''WFMPre?'') s2;
          cf = split_on CHR '';'' line
      in case read_preamble L cf of
           Inl e \<Rightarrow> (Inl e, s3)
         | Inr p \<Rightarrow>
             (let (curve, s4) = query (nl ''CURVe?'') s3
              in case decode_Y L (YMULTiplier p) curve of
                   Inl e \<Rightarrow> (Inl e, s4)
                 | Inr ys \<Rightarrow>
                     (Inr \<lparr>filename = fname, ch_conf = cf, conf = p,
                           ch_data_X = decode_X L (XINCRement p) (XZERO p) (length ys),
                           ch_data_Y = ys\<rparr>, s4)))"

text \<open>
  Lines 136-158: smooth the scaled series when asked to (the plot calls have no effect
  on the state), remove the offset, and write the file. The smoothed series is computed
  from \<open>ch_data_Y\<close> before line 145 replaces it.
\<close>

definition rows2 :: "'f list \<Rightarrow> 'f list \<Rightarrow> 'f cell list list" where
  "rows2 xs ys = map (\<lambda>(x, y). [Num x, Num y]) (zip xs ys)"

definition rows3 :: "'f list \<Rightarrow> 'f list \<Rightarrow> 'f list \<Rightarrow> 'f cell list list" where
  "rows3 xs ys yss = map (\<lambda>(x, y, y_s). [Num x, Num y, Num y_s]) (zip xs (zip ys yss))"

definition store_channel ::
  "'f lib \<Rightarrow> ('f list \<Rightarrow> nat \<Rightarrow> nat \<Rightarrow> 'f list) \<Rightarrow> bool \<Rightarrow> 'f channel_data \<Rightarrow> 'f state
     \<Rightarrow> (exn + unit) \<times> 'f state" where
  "store_channel L fit smoothing d s =
     (let calibrated = remove_offset L (YOFF (conf d)) (ch_data_Y d);
          head = [TextList (ch_conf d)]
      in if smoothing then
           (case savgol_filter fit (ch_data_Y d) smooth_window smooth_order of
              Inl e \<Rightarrow> (Inl e, s)
            | Inr ch_data_Y_smooth \<Rightarrow>
                (Inr (), s\<lparr>files := files s @
                   [(filename d,
                     head #
                     [Text (''Time, '' @ XUNIT (conf d)), Text (''Voltage, '' @ YUNIT (conf d)),
                      Text (''Smoothed Voltage, '' @ YUNIT (conf d))] #
                     rows3 (ch_data_X d) calibrated ch_data_Y_smooth)]\<rparr>))
         else
           (Inr (), s\<lparr>files := files s @
              [(filename d,
                head #
                [Text (''Time, '' @ XUNIT (conf d)), Text (''Voltage, '' @ YUNIT (conf d))] #
                rows2 (ch_data_X d) calibrated)]\<rparr>))"

text \<open>The loop of line 107: an exception in one channel ends the loop, and the script.\<close>

fun channel_loop ::
  "'f lib \<Rightarrow> ('f list \<Rightarrow> nat \<Rightarrow> nat \<Rightarrow> 'f list) \<Rightarrow> bool \<Rightarrow> string \<Rightarrow> string \<Rightarrow> nat list
     \<Rightarrow> 'f state \<Rightarrow> (exn + unit) \<times> 'f state" where
  "channel_loop L fit smoothing now save_path [] s = (Inr (), s)"
| "channel_loop L fit smoothing now save_path (CH_number # rest) s =
     (case acquire_channel L now save_path CH_number s of
        (Inl e, s') \<Rightarrow> (Inl e, s')
      | (Inr d, s') \<Rightarrow>
          (case store_channel L fit smoothing d s' of
             (Inl e, s'') \<Rightarrow> (Inl e, s'')
           | (Inr u, s'') \<Rightarrow> channel_loop L fit smoothing now save_path rest s''))"

section \<open>The session (the whole script)\<close>

text \<open>
  What a run receives: the command line, the names of the ports the system enumerates
  (\<^verbatim>\<open>port[0]\<close> of each entry, lines 53-57), what \<^verbatim>\<open>ser.open()\<close> does (it
  raises, or returns with the port open, or returns with \<^verbatim>\<open>is_open\<close> false), the
  lines the instrument sends, and the timestamp of line 79.
\<close>

datatype open_result = OpenRaises | OpenedTrue | OpenedFalse

record env =
  COMport :: string
  channels :: "string option"
  smooth :: bool
  save_path_arg :: "string option"
  comports :: "string list"
  port_open :: open_result
  replies :: "string list"
  timestamp :: string

definition IDN_expected :: string where
  "IDN_expected =
     ''TEKTRONIX,TDS 3034,0,CF:91.1CT FV:v3.29 TDS3GM:v1.00 TDS3FFT:v1.00 TDS3TRG:v1.00''"

text \<open>Lines 82-101: the set-up commands; the echoes are printed and otherwise unused.\<close>

definition configure :: "'f state \<Rightarrow> 'f state" where
  "configure s =
     (let s1 = ser_write (nl ''WFMPre:BIT_Nr 16'') s;
          (r1, s2) = query (nl ''WFMPre:BIT_Nr?'') s1;
          (r2, s3) = query (nl ''DATa:WIDth?'') s2;
          s4 = ser_write (nl ''WFMPre:ENCdg ASC'') s3;
          (r3, s5) = query (nl ''WFMPre:ENCdg?'') s4;
          (r4, s6) = query (nl ''HORizontal?'') s5;
          s7 = ser_write (nl ''DATa:STARt 1'') s6;
          (r5, s8) = query (nl ''DATa:STARt?'') s7;
          s9 = ser_write (nl ''DATa:STOP 10000'') s8;
          (r6, s10) = query (nl ''DATa:STOP?'') s9
      in s10)"

text \<open>
  The script, top to bottom: the port check (lines 52-62), the opening (64-68), the
  identification (70-76), the set-up, the loop over the selected channels, and the
  closing of the port at line 162. The first component of the result says how the run
  ended, the second is the state it left.
\<close>

definition init_state :: "env \<Rightarrow> 'f state" where
  "init_state E = \<lparr>is_open = False, written = [], pending = replies E, files = []\<rparr>"

definition session ::
  "'f lib \<Rightarrow> ('f list \<Rightarrow> nat \<Rightarrow> nat \<Rightarrow> 'f list) \<Rightarrow> env \<Rightarrow> outcome \<times> 'f state" where
  "session L fit E =
     (let save_path = (case save_path_arg E of None \<Rightarrow> ''.'' | Some d \<Rightarrow> d);
          s0 = init_state E
      in if COMport E \<notin> set (comports E) then (SysExit, s0)
         else (case port_open E of
                 OpenRaises \<Rightarrow> (Raised SerialException, s0)
               | OpenedFalse \<Rightarrow> (SysExit, s0)
               | OpenedTrue \<Rightarrow>
                   (let s1 = ser_write (nl ''*CLS'') (s0\<lparr>is_open := True\<rparr>);
                        (IDN, s2) = query (nl ''*IDN?'') s1
                    in if IDN \<noteq> IDN_expected then (SysExit, s2)
                       else (case channel_loop L fit (smooth E) (timestamp E) save_path
                                    (ACQ_CH (channels E)) (configure s2) of
                               (Inl e, s3) \<Rightarrow> (Raised e, s3)
                             | (Inr u, s3) \<Rightarrow> (Completed, s3\<lparr>is_open := False\<rparr>)))))"

section \<open>A concrete library: binary64 floats\<close>

text \<open>
  For the closed computations below, the library is instantiated with IEEE 754 binary64
  arithmetic (Python's \<^verbatim>\<open>float\<close>, numpy's \<^verbatim>\<open>float64\<close>). A finite float is the
  rational number it denotes. \<open>dbl q\<close> is the float nearest to \<open>q\<close>, ties to the even
  significand: 53 significant bits, exponents from \<open>-1022\<close> (below, the spacing of the
  subnormal numbers). Overflow to infinity, NaN and the sign of zero are outside this
  instance: it agrees with binary64 wherever the exact results stay below \<open>2^1024\<close>
  in magnitude.
\<close>

definition pow2 :: "int \<Rightarrow> rat" where
  "pow2 e = (if e \<ge> 0 then 2 ^ nat e else 1 / 2 ^ nat (- e))"

definition round_half_even :: "rat \<Rightarrow> int" where
  "round_half_even x =
     (let f = \<lfloor>x\<rfloor>; r = x - of_int f
      in if r < 1 / 2 then f else if r > 1 / 2 then f + 1 else if even f then f else f + 1)"

text \<open>\<open>ilog2 q\<close> is \<open>\<lfloor>log\<^sub>2 q\<rfloor>\<close> for a positive rational \<open>q\<close>.\<close>

definition ilog2 :: "rat \<Rightarrow> int" where
  "ilog2 q =
     (let (a, b) = quotient_of q; n = bitlen a - bitlen b
      in if pow2 n \<le> q then n else n - 1)"

definition dbl :: "rat \<Rightarrow> rat" where
  "dbl q =
     (if q = 0 then 0
      else (let e = max (ilog2 \<bar>q\<bar>) (- 1022); u = pow2 (e - 52)
            in of_int (round_half_even (q / u)) * u))"

text \<open>
  \<^verbatim>\<open>float(s)\<close> on decimal literals: an optional sign, digits with an optional
  fraction point (at least one digit in all), an optional exponent \<^verbatim>\<open>e\<close> or
  \<^verbatim>\<open>E\<close> with an optional sign and at least one digit. The value is rounded
  correctly. Python also accepts surrounding white space, underscores between digits and
  the names of infinity and NaN; this instance rejects them, so it is used on plain
  literals only.
\<close>

definition is_digit :: "char \<Rightarrow> bool" where
  "is_digit c = (c \<in> set ''0123456789'')"

definition nat_of_digits :: "string \<Rightarrow> nat" where
  "nat_of_digits ds = foldl (\<lambda>n c. 10 * n + (of_char c - 48)) 0 ds"

fun strip_sign :: "string \<Rightarrow> bool \<times> string" where
  "strip_sign [] = (False, [])"
| "strip_sign (c # cs) =
     (if c = CHR ''-'' then (True, cs) else if c = CHR ''+'' then (False, cs) else (False, c # cs))"

definition pow10 :: "int \<Rightarrow> rat" where
  "pow10 e = (if e \<ge> 0 then 10 ^ nat e else 1 / 10 ^ nat (- e))"

definition parse_decimal :: "string \<Rightarrow> rat option" where
  "parse_decimal s =
     (let (neg, r) = strip_sign s;
          is_e = (\<lambda>c. c = CHR ''e'' \<or> c = CHR ''E'');
          mant = takeWhile (\<lambda>c. \<not> is_e c) r;
          rest = dropWhile (\<lambda>c. \<not> is_e c) r;
          ip = takeWhile (\<lambda>c. c \<noteq> CHR ''.'') mant;
          fp = drop 1 (dropWhile (\<lambda>c. c \<noteq> CHR ''.'') mant);
          m = of_nat (nat_of_digits (ip @ fp)) / 10 ^ length fp;
          v = (if neg then - m else m)
      in if \<not> (list_all is_digit ip \<and> list_all is_digit fp \<and> ip @ fp \<noteq> []) then None
         else (case rest of
                 [] \<Rightarrow> Some v
               | x # ex \<Rightarrow>
                   (let (eneg, ed) = strip_sign ex;
                        k = int (nat_of_digits ed)
                    in if ed = [] \<or> \<not> list_all is_digit ed then None
                       else Some (v * pow10 (if eneg then - k else k)))))"

text \<open>
  \<^verbatim>\<open>os.path.join(a, b)\<close> on a POSIX system: an absolute \<open>b\<close> replaces \<open>a\<close>;
  otherwise the two are joined with one slash.
\<close>

definition posix_join :: "string \<Rightarrow> string \<Rightarrow> string" where
  "posix_join a b =
     (if take 1 b = ''/'' then b
      else if a = [] \<or> last a = CHR ''/'' then a @ b
      else a @ ''/'' @ b)"

text \<open>
  The operations: every arithmetic result is the exact result rounded once. The
  built-in \<^verbatim>\<open>round(x, n)\<close> rounds the exact decimal expansion of \<open>x\<close> half to even
  at \<open>n\<close> places and returns the nearest float. \<^verbatim>\<open>numpy.round(a, n)\<close> multiplies by
  \<open>10^n\<close> (rounded), rounds to the nearest integer (half to even) and divides by
  \<open>10^n\<close> (rounded).
\<close>

definition ieee_float :: "string \<Rightarrow> rat option" where
  "ieee_float s = map_option dbl (parse_decimal s)"

definition ieee_of_nat :: "nat \<Rightarrow> rat" where
  "ieee_of_nat n = dbl (of_nat n)"

definition ieee_mul :: "rat \<Rightarrow> rat \<Rightarrow> rat" where
  "ieee_mul a b = dbl (a * b)"

definition ieee_add :: "rat \<Rightarrow> rat \<Rightarrow> rat" where
  "ieee_add a b = dbl (a + b)"

definition ieee_sub :: "rat \<Rightarrow> rat \<Rightarrow> rat" where
  "ieee_sub a b = dbl (a - b)"

definition ieee_py_round :: "rat \<Rightarrow> nat \<Rightarrow> rat" where
  "ieee_py_round x n = dbl (of_int (round_half_even (x * 10 ^ n)) / 10 ^ n)"

definition ieee_np_round :: "rat \<Rightarrow> nat \<Rightarrow> rat" where
  "ieee_np_round x n = dbl (of_int (round_half_even (dbl (x * 10 ^ n))) / 10 ^ n)"

definition ieee :: "rat lib" where
  "ieee =
     \<lparr>parse_float = ieee_float, float_of_nat = ieee_of_nat, fmul = ieee_mul, fadd = ieee_add,
      fsub = ieee_sub, py_round = ieee_py_round, np_round = ieee_np_round,
      path_join = posix_join\<rparr>"

text \<open>
  The theorems below hold for every function \<open>fit\<close> of fitted values. A closed instance
  needs one: this stand-in returns the series as it is. On a series of zeros that is what
  the library returns (every value it computes there is a sum of products with the
  samples), and the closed instances that reach the filter use such a series; on other
  series the stand-in says nothing about the library's values.
\<close>

definition stand_in_fit :: "'f list \<Rightarrow> nat \<Rightarrow> nat \<Rightarrow> 'f list" where
  "stand_in_fit x window_length polyorder = x"

text \<open>
  \<open>reply s k\<close>: what the script will see as the result of its \<open>k\<close>-th next query in
  state \<open>s\<close> (the line without its last character; the empty string on a timeout).
\<close>

definition reply :: "'f state \<Rightarrow> nat \<Rightarrow> string" where
  "reply s k = strip_last (if k < length (pending s) then pending s ! k else [])"

section \<open>The calibrated voltage in the specification's words\<close>

text \<open>
  The specification gives the calibrated voltage as
  \<^verbatim>\<open>round(round(sample * y_multiplier, 15) - y_position, 15)\<close>. This definition
  follows those words; C1 compares it with what the script computes.
\<close>

definition spec_calibrated :: "'f lib \<Rightarrow> 'f \<Rightarrow> 'f \<Rightarrow> 'f \<Rightarrow> 'f" where
  "spec_calibrated L sample y_multiplier y_position =
     np_round L (fsub L (np_round L (fmul L sample y_multiplier) 15) y_position) 15"

section \<open>Auxiliary definitions for the proofs\<close>

text \<open>
  \<open>advanced s cmds n fs\<close>: the state \<open>s\<close> after the commands \<open>cmds\<close> were written,
  \<open>n\<close> lines were read and the files \<open>fs\<close> were written.
\<close>

definition advanced ::
  "'f state \<Rightarrow> string list \<Rightarrow> nat \<Rightarrow> (string \<times> 'f cell list list) list \<Rightarrow> 'f state" where
  "advanced s cmds n fs =
     s\<lparr>written := written s @ cmds, pending := drop n (pending s), files := files s @ fs\<rparr>"

text \<open>The commands of one channel up to the preamble query, and those of the set-up.\<close>

definition channel_cmds3 :: "nat \<Rightarrow> string list" where
  "channel_cmds3 ch = [nl (''DATa:SOU CH'' @ str_nat ch), nl ''DATa:SOU?'', nl ''WFMPre?'']"

definition config_cmds :: "string list" where
  "config_cmds =
     [nl ''WFMPre:BIT_Nr 16'', nl ''WFMPre:BIT_Nr?'', nl ''DATa:WIDth?'', nl ''WFMPre:ENCdg ASC'',
      nl ''WFMPre:ENCdg?'', nl ''HORizontal?'', nl ''DATa:STARt 1'', nl ''DATa:STARt?'',
      nl ''DATa:STOP 10000'', nl ''DATa:STOP?'']"

text \<open>The second row of a file: the column titles of lines 152 and 156.\<close>

definition column_heads :: "bool \<Rightarrow> 'f channel_data \<Rightarrow> 'f cell list" where
  "column_heads smoothing d =
     (if smoothing
      then [Text (''Time, '' @ XUNIT (conf d)), Text (''Voltage, '' @ YUNIT (conf d)),
            Text (''Smoothed Voltage, '' @ YUNIT (conf d))]
      else [Text (''Time, '' @ XUNIT (conf d)), Text (''Voltage, '' @ YUNIT (conf d))])"

text \<open>The state right after line 65 has opened the port.\<close>

definition opened :: "env \<Rightarrow> 'f state" where
  "opened E = (init_state E)\<lparr>is_open := True\<rparr>"

text \<open>The state in which the loop of line 107 starts: the port opened, lines 71-101 done.\<close>

definition loop_start :: "env \<Rightarrow> 'f state" where
  "loop_start E =
     configure (snd (query (nl ''*IDN?'') (ser_write (nl ''*CLS'') ((init_state E)\<lparr>is_open := True\<rparr>))))"

section \<open>Concrete inputs\<close>

text \<open>
  A channel whose preamble has x-increment \<open>1e-6\<close>, x-zero \<open>0\<close>, y-multiplier
  \<open>0.04\<close> and raw position \<open>512\<close>, with the curve \<open>100,200,300\<close>; and what the
  script makes of it.
\<close>

definition demo_preamble :: string where
  "demo_preamble = ''2;16;ASC;RP;MSB;3;Ch1;Y;1e-6;0;0;s;0.04;0;512;V''"

definition demo_replies :: "string list" where
  "demo_replies = [nl ''CH1'', nl demo_preamble, nl ''100,200,300'']"

definition demo_state :: "rat state" where
  "demo_state = \<lparr>is_open = True, written = [], pending = demo_replies, files = []\<rparr>"

definition demo_now :: string where
  "demo_now = ''2026-01-15 10:30:00''"

definition demo_conf :: "rat preamble" where
  "demo_conf =
     \<lparr>WFID = ''Ch1'', XUNIT = ''s'', XINCRement = dbl (1 / 10 ^ 6), XZERO = 0, YUNIT = ''V'',
      YMULTiplier = dbl (4 / 100), YZERO = 0, YOFF = dbl (2048 / 100)\<rparr>"

definition demo_data :: "rat channel_data" where
  "demo_data =
     \<lparr>filename = ''./2026-01-15 10-30-00 CH1.csv'',
      ch_conf = split_on CHR '';'' demo_preamble,
      conf = demo_conf,
      ch_data_X = [0, dbl (1 / 10 ^ 6), dbl (2 / 10 ^ 6)],
      ch_data_Y = [4, 8, 12]\<rparr>"

definition demo_file :: "string \<times> rat cell list list" where
  "demo_file =
     (filename demo_data, [TextList (ch_conf demo_data)] # column_heads False demo_data #
        rows2 (ch_data_X demo_data) (remove_offset ieee (YOFF (conf demo_data)) (ch_data_Y demo_data)))"

text \<open>A channel with a tiny multiplier: \<open>1e-16\<close>, raw position \<open>-2\<close>, one sample \<open>4\<close>.\<close>

definition tiny_preamble :: string where
  "tiny_preamble = ''2;16;ASC;RP;MSB;1;Ch1;Y;1e-6;0;0;s;1e-16;0;-2;V''"

definition tiny_state :: "rat state" where
  "tiny_state =
     \<lparr>is_open = True, written = [], pending = [nl ''CH1'', nl tiny_preamble, nl ''4''], files = []\<rparr>"






text \<open>
  Whole runs: the port \<open>COM3\<close> exists and opens, and the instrument answers the
  identification query and the six set-up queries. \<open>demo_env\<close> reads channel 1;
  \<open>smooth_env\<close> does so with smoothing on; in \<open>wrong_idn_env\<close> the identification differs
  from the expected one in one character (\<open>v3.28\<close> for \<open>v3.29\<close>); \<open>four_env\<close> selects the
  four channels, and the preamble of channel 2 has 13 fields only.
\<close>

definition setup_replies :: "string list" where
  "setup_replies =
     [nl IDN_expected, nl ''16'', nl ''2'', nl ''ASC'', nl ''MAIN;1.0E-3'', nl ''1'', nl ''10000'']"

definition demo_env :: env where
  "demo_env =
     \<lparr>COMport = ''COM3'', channels = Some ''1'', smooth = False, save_path_arg = None,
      comports = [''COM1'', ''COM3''], port_open = OpenedTrue,
      replies = setup_replies @ demo_replies, timestamp = demo_now\<rparr>"

definition smooth_env :: env where
  "smooth_env = demo_env\<lparr>smooth := True\<rparr>"

definition wrong_idn :: string where
  "wrong_idn =
     ''TEKTRONIX,TDS 3034,0,CF:91.1CT FV:v3.28 TDS3GM:v1.00 TDS3FFT:v1.00 TDS3TRG:v1.00''"

definition wrong_idn_env :: env where
  "wrong_idn_env = demo_env\<lparr>replies := [nl wrong_idn]\<rparr>"

definition short_preamble :: string where
  "short_preamble = ''2;16;ASC;RP;MSB;3;Ch2;Y;1e-6;0;0;s;0.04''"

definition later_replies :: "string list" where
  "later_replies =
     [nl ''CH3'', nl demo_preamble, nl ''100,200,300'', nl ''CH4'', nl demo_preamble, nl ''100,200,300'']"

definition four_env :: env where
  "four_env =
     demo_env\<lparr>channels := Some ''1234'',
              replies := setup_replies @ demo_replies @ [nl ''CH2'', nl short_preamble] @ later_replies\<rparr>"

text \<open>The state of the four-channel run when the loop of line 107 starts.\<close>

definition four_start :: "rat state" where
  "four_start = advanced (opened four_env) ([nl ''*CLS'', nl ''*IDN?''] @ config_cmds) 7 []"

section \<open>Auxiliary lemmas\<close>

lemma bindE_Inr_iff: "(bindE m f = Inr b) = (\<exists>a. m = Inr a \<and> f a = Inr b)"
  by (cases m) (simp_all add: bindE_def)

lemma to_float_Inr_iff: "(to_float L t = Inr v) = (parse_float L t = Some v)"
  by (simp add: to_float_def split: option.splits)

lemma index_Inr_iff: "(index xs i = Inr x) = (i < length xs \<and> x = xs ! i)"
  by (auto simp: index_def)

lemma length_split_on: "length (split_on sep s) = Suc (count_list s sep)"
  by (induction s) (auto split: list.splits)

lemma scale_tokens_Inr:
  "scale_tokens L ymult ds = Inr ys \<Longrightarrow>
     \<exists>samples. map (parse_float L) ds = map Some samples \<and> ys = map (\<lambda>v. fmul L v ymult) samples"
proof (induction ds arbitrary: ys)
  case Nil
  then show ?case by simp
next
  case (Cons d ds)
  from Cons.prems obtain v rest where
    v: "parse_float L d = Some v" and rest: "scale_tokens L ymult ds = Inr rest"
    and ys: "ys = fmul L v ymult # rest"
    by (auto simp: bindE_Inr_iff to_float_Inr_iff)
  from Cons.IH [OF rest] obtain samples where
    "map (parse_float L) ds = map Some samples" "rest = map (\<lambda>v. fmul L v ymult) samples"
    by blast
  with v ys have "map (parse_float L) (d # ds) = map Some (v # samples) \<and>
     ys = map (\<lambda>v. fmul L v ymult) (v # samples)" by simp
  then show ?case by blast
qed

lemma read_preamble_Inr:
  "read_preamble L cf = Inr p \<Longrightarrow>
     16 \<le> length cf \<and>
     WFID p = cf ! 6 \<and> XUNIT p = cf ! 11 \<and> YUNIT p = cf ! 15 \<and>
     parse_float L (cf ! 8) = Some (XINCRement p) \<and>
     parse_float L (cf ! 10) = Some (XZERO p) \<and>
     parse_float L (cf ! 12) = Some (YMULTiplier p) \<and>
     parse_float L (cf ! 13) = Some (YZERO p) \<and>
     (\<exists>pos. parse_float L (cf ! 14) = Some pos \<and> YOFF p = fmul L pos (YMULTiplier p))"
  unfolding read_preamble_def
  by (auto simp: bindE_Inr_iff to_float_Inr_iff index_Inr_iff)

lemma read_preamble_short: "length cf < 16 \<Longrightarrow> \<exists>e. read_preamble L cf = Inl e"
  using read_preamble_Inr [of L cf] by (cases "read_preamble L cf") auto

lemma read_preamble_bad_number:
  "k \<in> {8, 10, 12, 13, 14} \<Longrightarrow> parse_float L (cf ! k) = None \<Longrightarrow> \<exists>e. read_preamble L cf = Inl e"
  using read_preamble_Inr [of L cf] by (cases "read_preamble L cf") auto

lemma reply_shift: "pending s' = drop n (pending s) \<Longrightarrow> reply s' k = reply s (n + k)"
  by (auto simp: reply_def)

lemma advanced_fields [simp]:
  "written (advanced s cmds n fs) = written s @ cmds"
  "pending (advanced s cmds n fs) = drop n (pending s)"
  "is_open (advanced s cmds n fs) = is_open s"
  "files (advanced s cmds n fs) = files s @ fs"
  by (simp_all add: advanced_def)

lemma advanced_0: "advanced s [] 0 [] = s"
  by (simp add: advanced_def)

lemma advanced_close [simp]:
  "written (advanced s cmds n fs\<lparr>is_open := b\<rparr>) = written s @ cmds"
  "pending (advanced s cmds n fs\<lparr>is_open := b\<rparr>) = drop n (pending s)"
  "files (advanced s cmds n fs\<lparr>is_open := b\<rparr>) = files s @ fs"
  by (simp_all add: advanced_def)

lemma ser_write_advanced:
  "ser_write cmd (advanced s cmds n fs) = advanced s (cmds @ [cmd]) n fs"
  by (simp add: ser_write_def advanced_def)

lemma add_file_advanced:
  "(advanced s cmds n fs)\<lparr>files := files (advanced s cmds n fs) @ [f]\<rparr> =
     advanced s cmds n (fs @ [f])"
  by (simp add: advanced_def)

lemma query_advanced:
  "query cmd (advanced s cmds n fs) = (reply s n, advanced s (cmds @ [cmd]) (Suc n) fs)"
proof (cases "drop n (pending s)")
  case Nil
  then show ?thesis
    by (simp add: query_def ser_readline_def ser_write_def advanced_def reply_def)
next
  case (Cons l ls)
  have n: "n < length (pending s)"
  proof (rule ccontr)
    assume "\<not> n < length (pending s)"
    then have "drop n (pending s) = []" by simp
    with Cons show False by simp
  qed
  have l: "pending s ! n = l"
    using hd_drop_conv_nth [OF n] Cons by simp
  have ls: "drop (Suc n) (pending s) = ls"
    using Cons by (simp add: drop_Suc flip: tl_drop)
  from n l ls Cons show ?thesis
    by (simp add: query_def ser_readline_def ser_write_def advanced_def reply_def)
qed

lemma acquire_channel_advanced:
  "acquire_channel L now sp ch (advanced s cmds n fs) =
     (case read_preamble L (split_on CHR '';'' (reply s (Suc n))) of
        Inl e \<Rightarrow> (Inl e, advanced s (cmds @ channel_cmds3 ch) (Suc (Suc n)) fs)
      | Inr p \<Rightarrow>
          (case decode_Y L (YMULTiplier p) (reply s (Suc (Suc n))) of
             Inl e \<Rightarrow>
               (Inl e, advanced s (cmds @ channel_cmds3 ch @ [nl ''CURVe?'']) (Suc (Suc (Suc n))) fs)
           | Inr ys \<Rightarrow>
               (Inr \<lparr>filename = make_filename L now sp (reply s n),
                     ch_conf = split_on CHR '';'' (reply s (Suc n)), conf = p,
                     ch_data_X = decode_X L (XINCRement p) (XZERO p) (length ys),
                     ch_data_Y = ys\<rparr>,
                advanced s (cmds @ channel_cmds3 ch @ [nl ''CURVe?'']) (Suc (Suc (Suc n))) fs)))"
  by (simp add: acquire_channel_def Let_def ser_write_advanced query_advanced channel_cmds3_def
      split: sum.splits)

lemmas acquire_channel_eq =
  acquire_channel_advanced [where cmds = "[]" and n = 0 and fs = "[]", unfolded advanced_0 append_Nil]

lemma smooth_consts: "odd smooth_window" "smooth_order < smooth_window"
  by (simp_all add: smooth_window_def smooth_order_def)

lemma store_channel_plain:
  "store_channel L fit False d s =
     (Inr (), s\<lparr>files := files s @
        [(filename d, [TextList (ch_conf d)] # column_heads False d #
            rows2 (ch_data_X d) (remove_offset L (YOFF (conf d)) (ch_data_Y d)))]\<rparr>)"
  by (simp add: store_channel_def column_heads_def)

lemma store_channel_smooth:
  "store_channel L fit True d s =
     (if length (ch_data_Y d) < smooth_window then (Inl ValueError, s)
      else (Inr (), s\<lparr>files := files s @
        [(filename d, [TextList (ch_conf d)] # column_heads True d #
            rows3 (ch_data_X d) (remove_offset L (YOFF (conf d)) (ch_data_Y d))
              (fit (ch_data_Y d) smooth_window smooth_order))]\<rparr>))"
  using smooth_consts(2)
  by (simp add: store_channel_def column_heads_def savgol_filter_def)

lemma store_channel_Inr:
  assumes "store_channel L fit sm d s = (Inr u, s')"
  shows "\<exists>rows. files s' = files s @ [(filename d, rows)] \<and>
     take 2 rows = [[TextList (ch_conf d)], column_heads sm d] \<and>
     drop 2 rows =
       (if sm then rows3 (ch_data_X d) (remove_offset L (YOFF (conf d)) (ch_data_Y d))
                     (fit (ch_data_Y d) smooth_window smooth_order)
        else rows2 (ch_data_X d) (remove_offset L (YOFF (conf d)) (ch_data_Y d))) \<and>
     written s' = written s \<and> pending s' = pending s \<and> is_open s' = is_open s"
proof (cases sm)
  case True
  with assms show ?thesis
    by (auto simp: store_channel_smooth split: if_splits)
next
  case False
  with assms show ?thesis
    by (auto simp: store_channel_plain)
qed

lemma store_channel_Inl:
  assumes "store_channel L fit sm d s = (Inl e, s')"
  shows "s' = s \<and> sm \<and> e = ValueError \<and> length (ch_data_Y d) < smooth_window"
  using assms by (cases sm) (auto simp: store_channel_smooth store_channel_plain split: if_splits)

lemma acquire_channel_Inr:
  assumes "acquire_channel L now sp ch s = (Inr d, s1)"
  shows "s1 = advanced s (channel_cmds3 ch @ [nl ''CURVe?'']) 3 [] \<and>
     filename d = make_filename L now sp (reply s 0) \<and>
     ch_conf d = split_on CHR '';'' (reply s 1) \<and>
     read_preamble L (ch_conf d) = Inr (conf d) \<and>
     decode_Y L (YMULTiplier (conf d)) (reply s 2) = Inr (ch_data_Y d) \<and>
     ch_data_X d = decode_X L (XINCRement (conf d)) (XZERO (conf d)) (length (ch_data_Y d))"
  using assms unfolding acquire_channel_eq
  by (auto split: sum.splits simp: numeral_2_eq_2 numeral_3_eq_3)

lemma acquire_channel_Inl:
  assumes "acquire_channel L now sp ch s = (Inl e, s1)"
  shows "files s1 = files s \<and> is_open s1 = is_open s \<and>
     (s1 = advanced s (channel_cmds3 ch) 2 [] \<or>
      s1 = advanced s (channel_cmds3 ch @ [nl ''CURVe?'']) 3 [])"
  using assms unfolding acquire_channel_eq
  by (auto split: sum.splits simp: numeral_2_eq_2 numeral_3_eq_3)

lemma acquire_channel_bad_preamble:
  assumes "read_preamble L (split_on CHR '';'' (reply s 1)) = Inl e"
  shows "acquire_channel L now sp ch s = (Inl e, advanced s (channel_cmds3 ch) 2 [])"
  using assms unfolding acquire_channel_eq by (simp add: numeral_2_eq_2)

lemma read_preamble_Inl: "read_preamble L cf = Inl e \<Longrightarrow> e = IndexError \<or> e = ValueError"
  by (cases e) (auto simp: read_preamble_def bindE_def index_def to_float_def
      split: sum.splits option.splits if_splits)

lemma channel_loop_append:
  "channel_loop L fit sm now sp (xs @ ys) s =
     (case channel_loop L fit sm now sp xs s of
        (Inl e, s') \<Rightarrow> (Inl e, s')
      | (Inr u, s') \<Rightarrow> channel_loop L fit sm now sp ys s')"
  by (induction xs arbitrary: s) (auto split: prod.splits sum.splits)

lemma configure_advanced:
  "configure (advanced s cmds n fs) = advanced s (cmds @ config_cmds) (n + 6) fs"
  by (simp add: configure_def Let_def ser_write_advanced query_advanced config_cmds_def
      eval_nat_numeral)

lemma opened_fields [simp]:
  "is_open (opened E) = True" "written (opened E) = []" "pending (opened E) = replies E"
  "files (opened E) = []"
  by (simp_all add: opened_def init_state_def)

lemma session_eq:
  assumes "COMport E \<in> set (comports E)" and "port_open E = OpenedTrue"
  shows "session (L :: 'f lib) fit E =
     (if reply (opened E :: 'f state) 0 \<noteq> IDN_expected
      then (SysExit, advanced (opened E) [nl ''*CLS'', nl ''*IDN?''] 1 [])
      else (case channel_loop L fit (smooth E) (timestamp E)
                   (case save_path_arg E of None \<Rightarrow> ''.'' | Some d \<Rightarrow> d)
                   (ACQ_CH (channels E))
                   (advanced (opened E) ([nl ''*CLS'', nl ''*IDN?''] @ config_cmds) 7 []) of
              (Inl e, s3) \<Rightarrow> (Raised e, s3)
            | (Inr u, s3) \<Rightarrow> (Completed, s3\<lparr>is_open := False\<rparr>)))"
proof -
  have "query (nl ''*IDN?'') (ser_write (nl ''*CLS'') (advanced (opened E :: 'f state) [] 0 [])) =
          (reply (opened E :: 'f state) 0, advanced (opened E) [nl ''*CLS'', nl ''*IDN?''] 1 [])"
    by (simp only: ser_write_advanced query_advanced append_Nil append_Cons One_nat_def)
  then have q: "query (nl ''*IDN?'') (ser_write (nl ''*CLS'') (opened E :: 'f state)) =
          (reply (opened E :: 'f state) 0, advanced (opened E) [nl ''*CLS'', nl ''*IDN?''] 1 [])"
    by (simp only: advanced_0)
  have o: "(init_state E :: 'f state)\<lparr>is_open := True\<rparr> = opened E"
    by (simp add: opened_def)
  show ?thesis
    using assms
    by (simp add: session_def Let_def o q configure_advanced)
qed

lemma channel_loop_written:
  "channel_loop L fit sm now sp chs s = (r, s') \<Longrightarrow> \<exists>ws. written s' = written s @ ws"
proof (induction chs arbitrary: s)
  case Nil
  then show ?case by simp
next
  case (Cons ch chs)
  show ?case
  proof (cases "acquire_channel L now sp ch s")
    case (Pair a s1)
    show ?thesis
    proof (cases a)
      case (Inl e)
      with Pair Cons.prems have "s' = s1" by simp
      with acquire_channel_Inl [of L now sp ch s e s1] Pair Inl show ?thesis by auto
    next
      case (Inr d)
      with Pair acquire_channel_Inr [of L now sp ch s d s1]
      have w1: "written s1 = written s @ channel_cmds3 ch @ [nl ''CURVe?'']" by simp
      show ?thesis
      proof (cases "store_channel L fit sm d s1")
        case (Pair b s2)
        note st = this
        show ?thesis
        proof (cases b)
          case (Inl e)
          with st store_channel_Inl [of L fit sm d s1 e s2] have "s2 = s1" by simp
          moreover from Cons.prems \<open>acquire_channel L now sp ch s = (a, s1)\<close> Inr st Inl
          have "s' = s2" by simp
          ultimately show ?thesis using w1 by simp
        next
          case (Inr u)
          with st store_channel_Inr [of L fit sm d s1 u s2] have w2: "written s2 = written s1" by auto
          from Cons.prems \<open>acquire_channel L now sp ch s = (a, s1)\<close> \<open>a = Inr d\<close> st Inr
          have "channel_loop L fit sm now sp chs s2 = (r, s')" by simp
          from Cons.IH [OF this] obtain ws where "written s' = written s2 @ ws" by blast
          with w1 w2 show ?thesis by simp
        qed
      qed
    qed
  qed
qed

lemma opened_reply: "reply (opened E :: 'f state) k = reply (init_state E :: 'f state) k"
  by (simp add: reply_def init_state_def)

lemma loop_start_eq:
  "(loop_start E :: 'f state) = advanced (opened E) ([nl ''*CLS'', nl ''*IDN?''] @ config_cmds) 7 []"
proof -
  have "query (nl ''*IDN?'') (ser_write (nl ''*CLS'') (advanced (opened E :: 'f state) [] 0 [])) =
          (reply (opened E :: 'f state) 0, advanced (opened E) [nl ''*CLS'', nl ''*IDN?''] 1 [])"
    by (simp only: ser_write_advanced query_advanced append_Nil append_Cons One_nat_def)
  then have "query (nl ''*IDN?'') (ser_write (nl ''*CLS'') (opened E :: 'f state)) =
          (reply (opened E :: 'f state) 0, advanced (opened E) [nl ''*CLS'', nl ''*IDN?''] 1 [])"
    by (simp only: advanced_0)
  then show ?thesis
    by (simp add: loop_start_def opened_def [symmetric] configure_advanced)
qed

lemma channel_loop_is_open:
  "channel_loop L fit sm now sp chs s = (r, s') \<Longrightarrow> is_open s' = is_open s"
proof (induction chs arbitrary: s)
  case Nil
  then show ?case by simp
next
  case (Cons ch chs)
  obtain a s1 where acq: "acquire_channel L now sp ch s = (a, s1)"
    by (cases "acquire_channel L now sp ch s") blast
  show ?case
  proof (cases a)
    case (Inl e)
    with acq Cons.prems have "s' = s1" by simp
    with acquire_channel_Inl [of L now sp ch s e s1] acq Inl show ?thesis by simp
  next
    case (Inr d)
    with acq acquire_channel_Inr [of L now sp ch s d s1]
    have o1: "is_open s1 = is_open s" by simp
    obtain b s2 where st: "store_channel L fit sm d s1 = (b, s2)"
      by (cases "store_channel L fit sm d s1") blast
    show ?thesis
    proof (cases b)
      case (Inl e)
      with st store_channel_Inl [of L fit sm d s1 e s2] have "s2 = s1" by simp
      moreover from Cons.prems acq Inr st Inl have "s' = s2" by simp
      ultimately show ?thesis using o1 by simp
    next
      case (Inr u)
      with st store_channel_Inr [of L fit sm d s1 u s2] have o2: "is_open s2 = is_open s1" by auto
      from Cons.prems acq \<open>a = Inr d\<close> st Inr
      have "channel_loop L fit sm now sp chs s2 = (r, s')" by simp
      from Cons.IH [OF this] o1 o2 show ?thesis by simp
    qed
  qed
qed

lemma loop_start_is_open: "is_open (loop_start E) = True"
  by (simp add: loop_start_eq)

lemma loop_malformed_preamble:
  assumes "channel_loop L fit sm now sp before s = (Inr u, s1)"
      and "length (split_on CHR '';'' (reply s1 1)) < 16 \<or>
           (\<exists>k \<in> {8, 10, 12, 13, 14}.
              parse_float L (split_on CHR '';'' (reply s1 1) ! k) = None)"
  shows "\<exists>e. channel_loop L fit sm now sp (before @ ch # after) s =
               (Inl e, advanced s1 (channel_cmds3 ch) 2 []) \<and>
             (e = IndexError \<or> e = ValueError)"
proof -
  obtain e where e: "read_preamble L (split_on CHR '';'' (reply s1 1)) = Inl e"
    using assms(2)
  proof
    assume "length (split_on CHR '';'' (reply s1 1)) < 16"
    from read_preamble_short [OF this, of L] that show ?thesis by blast
  next
    assume "\<exists>k \<in> {8, 10, 12, 13, 14}. parse_float L (split_on CHR '';'' (reply s1 1) ! k) = None"
    then obtain k where "k \<in> {8, 10, 12, 13, 14}"
      and "parse_float L (split_on CHR '';'' (reply s1 1) ! k) = None"
      by blast
    from read_preamble_bad_number [OF this] that show ?thesis by blast
  qed
  have step: "channel_loop L fit sm now sp (ch # after) s1 =
          (Inl e, advanced s1 (channel_cmds3 ch) 2 [])"
    by (simp only: channel_loop.simps acquire_channel_bad_preamble [OF e] prod.case sum.case)
  have "channel_loop L fit sm now sp (before @ ch # after) s =
          (Inl e, advanced s1 (channel_cmds3 ch) 2 [])"
    by (simp only: channel_loop_append [of L fit sm now sp before "ch # after" s] assms(1)
        prod.case sum.case step)
  moreover have "e = IndexError \<or> e = ValueError"
    by (rule read_preamble_Inl [OF e])
  ultimately show ?thesis by blast
qed

subsection \<open>Channel selection\<close>


lemma str_find_single: "(0 \<le> str_find s [ch]) = (ch \<in> set s)"
proof (induction s)
  case Nil
  show ?case by simp
next
  case (Cons c cs)
  show ?case
  proof (cases "c = ch")
    case True
    then show ?thesis by simp
  next
    case False
    with Cons show ?thesis by (auto simp: Let_def)
  qed
qed

lemma str_nat_1_4:
  "str_nat 1 = ''1''" "str_nat 2 = ''2''" "str_nat 3 = ''3''" "str_nat 4 = ''4''"
  by code_simp+

lemma range_1_5: "[1 ..< 5] = [1, 2, 3, 4::nat]"
  by (simp add: upt_rec)

lemma ACQ_CH_Some:
  "ACQ_CH (Some c) =
     (if CHR ''1'' \<in> set c then [1] else []) @ (if CHR ''2'' \<in> set c then [2] else []) @
     (if CHR ''3'' \<in> set c then [3] else []) @ (if CHR ''4'' \<in> set c then [4] else [])"
  unfolding ACQ_CH_def range_1_5
  by (simp only: option.case Let_def filter.simps str_nat_1_4 str_find_single) simp

lemma calibrated_series:
  assumes "acquire_channel L now sp ch s = (Inr d, s1)"
  shows "\<exists>ym pos samples.
           parse_float L (split_on CHR '';'' (reply s 1) ! 12) = Some ym \<and>
           parse_float L (split_on CHR '';'' (reply s 1) ! 14) = Some pos \<and>
           map (parse_float L) (split_on CHR '','' (reply s 2)) = map Some samples \<and>
           ch_data_Y d = map (\<lambda>v. fmul L v ym) samples \<and>
           remove_offset L (YOFF (conf d)) (ch_data_Y d) =
             map (\<lambda>v. np_round L (fsub L (fmul L v ym) (fmul L pos ym)) 15) samples"
proof -
  from acquire_channel_Inr [OF assms]
  have cf: "ch_conf d = split_on CHR '';'' (reply s 1)"
    and p: "read_preamble L (ch_conf d) = Inr (conf d)"
    and y: "decode_Y L (YMULTiplier (conf d)) (reply s 2) = Inr (ch_data_Y d)"
    by blast+
  from y obtain samples where
    sm: "map (parse_float L) (split_on CHR '','' (reply s 2)) = map Some samples"
    and ys: "ch_data_Y d = map (\<lambda>v. fmul L v (YMULTiplier (conf d))) samples"
    unfolding decode_Y_def by (blast dest: scale_tokens_Inr)
  from read_preamble_Inr [OF p] cf obtain pos where
    ym: "parse_float L (split_on CHR '';'' (reply s 1) ! 12) = Some (YMULTiplier (conf d))"
    and pos: "parse_float L (split_on CHR '';'' (reply s 1) ! 14) = Some pos"
    and off: "YOFF (conf d) = fmul L pos (YMULTiplier (conf d))"
    by auto
  have "remove_offset L (YOFF (conf d)) (ch_data_Y d) =
      map (\<lambda>v. np_round L (fsub L (fmul L v (YMULTiplier (conf d)))
                               (fmul L pos (YMULTiplier (conf d)))) 15) samples"
    by (simp add: remove_offset_def ys off)
  with ym pos sm ys show ?thesis by blast
qed

section \<open>The concrete inputs, evaluated\<close>

lemma bindE_Inr: "bindE (Inr a) f = f a"
  by (simp add: bindE_def)

lemma bindE_Inl: "bindE (Inl e) f = Inl e"
  by (simp add: bindE_def)

lemma to_float_Some: "parse_float L t = Some v \<Longrightarrow> to_float L t = Inr v"
  by (simp add: to_float_def)

lemma ieee_sel:
  "parse_float ieee = ieee_float" "float_of_nat ieee = ieee_of_nat" "fmul ieee = ieee_mul"
  "fadd ieee = ieee_add" "fsub ieee = ieee_sub" "py_round ieee = ieee_py_round"
  "np_round ieee = ieee_np_round" "path_join ieee = posix_join"
  by (simp_all add: ieee_def)

lemma read_preamble_16:
  "read_preamble L [f0, f1, f2, f3, f4, f5, f6, f7, f8, f9, f10, f11, f12, f13, f14, f15] =
     bindE (to_float L f8) (\<lambda>xinc.
     bindE (to_float L f10) (\<lambda>xzero.
     bindE (to_float L f12) (\<lambda>ymult.
     bindE (to_float L f13) (\<lambda>yzero.
     bindE (to_float L f14) (\<lambda>pos.
     Inr \<lparr>WFID = f6, XUNIT = f11, XINCRement = xinc, XZERO = xzero, YUNIT = f15,
          YMULTiplier = ymult, YZERO = yzero, YOFF = fmul L pos ymult\<rparr>)))))"
  by (simp add: read_preamble_def index_def bindE_def)

lemma decode_X_3:
  "decode_X L xinc xzero 3 =
     [py_round L (fadd L (fmul L (float_of_nat L 0) xinc) xzero) 15,
      py_round L (fadd L (fmul L (float_of_nat L 1) xinc) xzero) 15,
      py_round L (fadd L (fmul L (float_of_nat L 2) xinc) xzero) 15]"
  by (simp add: decode_X_def upt_rec numeral_2_eq_2)

lemma demo_fields:
  "split_on CHR '';'' demo_preamble =
     [''2'', ''16'', ''ASC'', ''RP'', ''MSB'', ''3'', ''Ch1'', ''Y'', ''1e-6'', ''0'', ''0'', ''s'',
      ''0.04'', ''0'', ''512'', ''V'']"
  by (simp add: demo_preamble_def)

lemma demo_tokens: "split_on CHR '','' ''100,200,300'' = [''100'', ''200'', ''300'']"
  by simp

lemma demo_floats:
  "ieee_float ''1e-6'' = Some (dbl (1 / 10 ^ 6))"
  "ieee_float ''0'' = Some 0"
  "ieee_float ''0.04'' = Some (dbl (4 / 100))"
  "ieee_float ''512'' = Some 512"
  "ieee_float ''100'' = Some 100"
  "ieee_float ''200'' = Some 200"
  "ieee_float ''300'' = Some 300"
  by code_simp+

lemma demo_products:
  "ieee_mul 512 (dbl (4 / 100)) = dbl (2048 / 100)"
  "ieee_mul 100 (dbl (4 / 100)) = 4"
  "ieee_mul 200 (dbl (4 / 100)) = 8"
  "ieee_mul 300 (dbl (4 / 100)) = 12"
  by code_simp+

lemma demo_times:
  "ieee_py_round (ieee_add (ieee_mul (ieee_of_nat 0) (dbl (1 / 10 ^ 6))) 0) 15 = 0"
  "ieee_py_round (ieee_add (ieee_mul (ieee_of_nat 1) (dbl (1 / 10 ^ 6))) 0) 15 = dbl (1 / 10 ^ 6)"
  "ieee_py_round (ieee_add (ieee_mul (ieee_of_nat 2) (dbl (1 / 10 ^ 6))) 0) 15 = dbl (2 / 10 ^ 6)"
  by code_simp+

lemma demo_calibrated:
  "ieee_np_round (ieee_sub 4 (dbl (2048 / 100))) 15 = dbl (- 1648 / 100)"
  "ieee_np_round (ieee_sub 8 (dbl (2048 / 100))) 15 = dbl (- 1248 / 100)"
  "ieee_np_round (ieee_sub 12 (dbl (2048 / 100))) 15 = dbl (- 848 / 100)"
  by code_simp+

lemmas demo_to_float = demo_floats [folded ieee_sel(1), THEN to_float_Some]

lemma demo_read_preamble:
  "read_preamble ieee (split_on CHR '';'' demo_preamble) =
     Inr \<lparr>WFID = ''Ch1'', XUNIT = ''s'', XINCRement = dbl (1 / 10 ^ 6), XZERO = 0,
           YUNIT = ''V'', YMULTiplier = dbl (4 / 100), YZERO = 0, YOFF = dbl (2048 / 100)\<rparr>"
  by (simp only: demo_fields read_preamble_16 demo_to_float bindE_Inr ieee_sel demo_products)

lemma demo_decode_Y: "decode_Y ieee (dbl (4 / 100)) ''100,200,300'' = Inr [4, 8, 12]"
  by (simp only: decode_Y_def demo_tokens scale_tokens.simps demo_to_float bindE_Inr ieee_sel
      demo_products)

lemma demo_decode_X:
  "decode_X ieee (dbl (1 / 10 ^ 6)) 0 3 = [0, dbl (1 / 10 ^ 6), dbl (2 / 10 ^ 6)]"
  by (simp only: decode_X_3 ieee_sel demo_times)

lemma demo_remove_offset:
  "remove_offset ieee (dbl (2048 / 100)) [4, 8, 12] =
     [dbl (- 1648 / 100), dbl (- 1248 / 100), dbl (- 848 / 100)]"
  by (simp only: remove_offset_def list.map ieee_sel demo_calibrated)

lemma demo_conf_sel:
  "XINCRement demo_conf = dbl (1 / 10 ^ 6)" "XZERO demo_conf = 0"
  "YMULTiplier demo_conf = dbl (4 / 100)" "YOFF demo_conf = dbl (2048 / 100)"
  "XUNIT demo_conf = ''s''" "YUNIT demo_conf = ''V''"
  by (simp_all only: demo_conf_def preamble.select_convs)

lemma demo_read_conf: "read_preamble ieee (split_on CHR '';'' demo_preamble) = Inr demo_conf"
  by (simp only: demo_read_preamble demo_conf_def)

lemma length_3: "length [a, b, c] = 3"
  by simp

lemma demo_filename: "make_filename ieee demo_now ''.'' ''CH1'' = ''./2026-01-15 10-30-00 CH1.csv''"
  by (simp add: make_filename_def ieee_def posix_join_def replace_char_def demo_now_def)

lemma demo_acquire_advanced:
  assumes "reply s n = ''CH1''" and "reply s (Suc n) = demo_preamble"
      and "reply s (Suc (Suc n)) = ''100,200,300''"
  shows "acquire_channel ieee demo_now ''.'' ch (advanced s cmds n fs) =
           (Inr demo_data,
            advanced s (cmds @ channel_cmds3 ch @ [nl ''CURVe?'']) (Suc (Suc (Suc n))) fs)"
  by (simp only: acquire_channel_advanced assms demo_read_conf sum.case demo_conf_sel
      demo_decode_Y length_3 demo_decode_X demo_filename demo_data_def)

lemma demo_replies_at:
  "reply demo_state 0 = ''CH1''" "reply demo_state (Suc 0) = demo_preamble"
  "reply demo_state (Suc (Suc 0)) = ''100,200,300''"
  by (simp_all add: reply_def demo_state_def demo_replies_def nl_def strip_last_def)

lemma demo_acquire:
  "acquire_channel ieee demo_now ''.'' 1 demo_state =
     (Inr demo_data, advanced demo_state (channel_cmds3 1 @ [nl ''CURVe?'']) 3 [])"
  using demo_acquire_advanced [OF demo_replies_at, of 1 "[]" "[]"]
  by (simp only: advanced_0 append_Nil numeral_3_eq_3)

lemma channel_loop_single_plain:
  assumes "acquire_channel L now sp ch s = (Inr d, s1)"
  shows "channel_loop L fit False now sp [ch] s =
     (Inr (), s1\<lparr>files := files s1 @
        [(filename d, [TextList (ch_conf d)] # column_heads False d #
            rows2 (ch_data_X d) (remove_offset L (YOFF (conf d)) (ch_data_Y d)))]\<rparr>)"
  by (simp add: assms store_channel_plain)

lemma rows2_1: "rows2 [x0] [y0] = [[Num x0, Num y0]]"
  by (simp add: rows2_def)

lemma rows2_3:
  "rows2 [x0, x1, x2] [y0, y1, y2] = [[Num x0, Num y0], [Num x1, Num y1], [Num x2, Num y2]]"
  by (simp add: rows2_def)

lemma demo_data_sel:
  "filename demo_data = ''./2026-01-15 10-30-00 CH1.csv''"
  "ch_conf demo_data = split_on CHR '';'' demo_preamble"
  "conf demo_data = demo_conf"
  "ch_data_X demo_data = [0, dbl (1 / 10 ^ 6), dbl (2 / 10 ^ 6)]"
  "ch_data_Y demo_data = [4, 8, 12]"
  by (simp_all only: demo_data_def channel_data.select_convs)

lemma demo_heads: "column_heads False demo_data = [Text ''Time, s'', Text ''Voltage, V'']"
  by (simp add: column_heads_def demo_data_sel demo_conf_sel)

lemma demo_files:
  "files (snd (channel_loop ieee stand_in_fit False demo_now ''.'' [1] demo_state)) =
     [(''./2026-01-15 10-30-00 CH1.csv'',
       [[TextList (split_on CHR '';'' demo_preamble)],
        [Text ''Time, s'', Text ''Voltage, V''],
        [Num 0, Num (dbl (- 1648 / 100))],
        [Num (dbl (1 / 10 ^ 6)), Num (dbl (- 1248 / 100))],
        [Num (dbl (2 / 10 ^ 6)), Num (dbl (- 848 / 100))]])]"
  by (simp only: channel_loop_single_plain [OF demo_acquire] snd_conv demo_heads demo_data_sel
      demo_conf_sel demo_remove_offset rows2_3)
    (simp add: demo_state_def)

lemma demo_store:
  "store_channel ieee stand_in_fit False demo_data s =
     (Inr (), snd (store_channel ieee stand_in_fit False demo_data s))"
  by (simp add: store_channel_plain)

subsection \<open>The tiny multiplier\<close>

lemma decode_X_1:
  "decode_X L xinc xzero 1 = [py_round L (fadd L (fmul L (float_of_nat L 0) xinc) xzero) 15]"
  by (simp add: decode_X_def)

lemma tiny_fields:
  "split_on CHR '';'' tiny_preamble =
     [''2'', ''16'', ''ASC'', ''RP'', ''MSB'', ''1'', ''Ch1'', ''Y'', ''1e-6'', ''0'', ''0'', ''s'',
      ''1e-16'', ''0'', ''-2'', ''V'']"
  by (simp add: tiny_preamble_def)

lemma tiny_tokens: "split_on CHR '','' ''4'' = [''4'']"
  by simp

lemma tiny_floats:
  "ieee_float ''1e-16'' = Some (dbl (1 / 10 ^ 16))"
  "ieee_float ''-2'' = Some (- 2)"
  "ieee_float ''4'' = Some 4"
  by code_simp+

lemmas tiny_to_float = tiny_floats [folded ieee_sel(1), THEN to_float_Some]

lemma tiny_products:
  "ieee_mul (- 2) (dbl (1 / 10 ^ 16)) = dbl (- 2 / 10 ^ 16)"
  "ieee_mul 4 (dbl (1 / 10 ^ 16)) = dbl (4 / 10 ^ 16)"
  by code_simp+

lemma tiny_script_value:
  "ieee_np_round (ieee_sub (dbl (4 / 10 ^ 16)) (dbl (- 2 / 10 ^ 16))) 15 = dbl (1 / 10 ^ 15)"
  by code_simp

lemma tiny_spec_value:
  "ieee_np_round (ieee_sub (ieee_np_round (dbl (4 / 10 ^ 16)) 15) (dbl (- 2 / 10 ^ 16))) 15 = 0"
  by code_simp

lemma tiny_spec_value_py:
  "ieee_py_round (ieee_sub (ieee_py_round (dbl (4 / 10 ^ 16)) 15) (dbl (- 2 / 10 ^ 16))) 15 = 0"
  by code_simp

lemma tiny_differ: "dbl (1 / 10 ^ 15) \<noteq> 0"
  by code_simp

lemma tiny_read_preamble:
  "read_preamble ieee (split_on CHR '';'' tiny_preamble) =
     Inr \<lparr>WFID = ''Ch1'', XUNIT = ''s'', XINCRement = dbl (1 / 10 ^ 6), XZERO = 0, YUNIT = ''V'',
           YMULTiplier = dbl (1 / 10 ^ 16), YZERO = 0, YOFF = dbl (- 2 / 10 ^ 16)\<rparr>"
  by (simp only: tiny_fields read_preamble_16 demo_to_float tiny_to_float bindE_Inr ieee_sel
      tiny_products)

lemma tiny_decode_Y: "decode_Y ieee (dbl (1 / 10 ^ 16)) ''4'' = Inr [dbl (4 / 10 ^ 16)]"
  by (simp only: decode_Y_def tiny_tokens scale_tokens.simps tiny_to_float bindE_Inr ieee_sel
      tiny_products)

lemma tiny_decode_X: "decode_X ieee (dbl (1 / 10 ^ 6)) 0 1 = [0]"
  by (simp only: decode_X_1 ieee_sel demo_times)

lemma length_1: "length [a] = 1"
  by simp

lemma tiny_replies_at:
  "reply tiny_state 0 = ''CH1''" "reply tiny_state (Suc 0) = tiny_preamble"
  "reply tiny_state (Suc (Suc 0)) = ''4''"
  by (simp_all add: reply_def tiny_state_def nl_def strip_last_def)

lemma tiny_acquire:
  "acquire_channel ieee demo_now ''.'' 1 tiny_state =
     (Inr \<lparr>filename = ''./2026-01-15 10-30-00 CH1.csv'',
           ch_conf = split_on CHR '';'' tiny_preamble,
           conf = \<lparr>WFID = ''Ch1'', XUNIT = ''s'', XINCRement = dbl (1 / 10 ^ 6), XZERO = 0,
                   YUNIT = ''V'', YMULTiplier = dbl (1 / 10 ^ 16), YZERO = 0,
                   YOFF = dbl (- 2 / 10 ^ 16)\<rparr>,
           ch_data_X = [0], ch_data_Y = [dbl (4 / 10 ^ 16)]\<rparr>,
      advanced tiny_state (channel_cmds3 1 @ [nl ''CURVe?'']) (Suc (Suc (Suc 0))) [])"
  by (simp only: acquire_channel_eq tiny_replies_at tiny_read_preamble sum.case
      preamble.select_convs tiny_decode_Y length_1 tiny_decode_X demo_filename)

lemma tiny_files:
  "files (snd (channel_loop ieee stand_in_fit False demo_now ''.'' [1] tiny_state)) =
     [(''./2026-01-15 10-30-00 CH1.csv'',
       [[TextList (split_on CHR '';'' tiny_preamble)],
        [Text ''Time, s'', Text ''Voltage, V''],
        [Num 0, Num (dbl (1 / 10 ^ 15))]])]"
  by (simp only: channel_loop_single_plain [OF tiny_acquire] snd_conv column_heads_def if_False
      channel_data.select_convs preamble.select_convs remove_offset_def list.map ieee_sel
      tiny_script_value rows2_1)
    (simp add: tiny_state_def)

subsection \<open>Eleven samples, all zero\<close>




















subsection \<open>Whole runs\<close>

lemma demo_env_port:
  "COMport demo_env \<in> set (comports demo_env)" "port_open demo_env = OpenedTrue"
  by (simp_all add: demo_env_def)

lemma wrong_idn_env_port:
  "COMport wrong_idn_env \<in> set (comports wrong_idn_env)" "port_open wrong_idn_env = OpenedTrue"
  by (simp_all add: wrong_idn_env_def demo_env_def)

lemma smooth_env_port:
  "COMport smooth_env \<in> set (comports smooth_env)" "port_open smooth_env = OpenedTrue"
  by (simp_all add: smooth_env_def demo_env_def)

lemma four_env_port:
  "COMport four_env \<in> set (comports four_env)" "port_open four_env = OpenedTrue"
  by (simp_all add: four_env_def demo_env_def)

lemma demo_env_idn: "reply (init_state demo_env :: rat state) 0 = IDN_expected"
  by (simp add: reply_def init_state_def demo_env_def setup_replies_def nl_def strip_last_def)

lemma wrong_idn_env_idn:
  "reply (init_state wrong_idn_env :: rat state) 0 = wrong_idn" "wrong_idn \<noteq> IDN_expected"
  by (simp_all add: reply_def init_state_def wrong_idn_env_def demo_env_def nl_def strip_last_def
      wrong_idn_def IDN_expected_def)

lemma demo_store_smooth: "store_channel ieee fit True demo_data s = (Inl ValueError, s)"
  by (simp add: store_channel_smooth demo_data_sel smooth_window_def)

lemma demo_session_replies:
  "reply (opened demo_env :: rat state) 7 = ''CH1''"
  "reply (opened demo_env :: rat state) (Suc 7) = demo_preamble"
  "reply (opened demo_env :: rat state) (Suc (Suc 7)) = ''100,200,300''"
  by (simp_all add: reply_def demo_env_def setup_replies_def demo_replies_def nl_def strip_last_def)

lemma smooth_env_fields:
  "replies smooth_env = replies demo_env" "smooth smooth_env = True"
  "timestamp smooth_env = demo_now" "save_path_arg smooth_env = None"
  "channels smooth_env = Some ''1''"
  by (simp_all add: smooth_env_def demo_env_def)

lemma opened_smooth: "(opened smooth_env :: rat state) = opened demo_env"
  by (simp add: opened_def init_state_def smooth_env_fields)

lemma ACQ_CH_1: "ACQ_CH (Some ''1'') = [1]"
  by (simp add: ACQ_CH_Some)

lemma str_nat_Suc_0: "str_nat (Suc 0) = ''1''"
  by code_simp

lemma smooth_session:
  "session ieee stand_in_fit smooth_env =
     (Raised ValueError,
      advanced (opened demo_env)
        (([nl ''*CLS'', nl ''*IDN?''] @ config_cmds) @ channel_cmds3 1 @ [nl ''CURVe?''])
        (Suc (Suc (Suc 7))) [])"
proof -
  have idn: "reply (opened demo_env :: rat state) 0 = IDN_expected"
    by (simp only: opened_reply demo_env_idn)
  have loop: "channel_loop ieee stand_in_fit True demo_now ''.'' [1]
       (advanced (opened demo_env) ([nl ''*CLS'', nl ''*IDN?''] @ config_cmds) 7 []) =
     (Inl ValueError,
      advanced (opened demo_env)
        (([nl ''*CLS'', nl ''*IDN?''] @ config_cmds) @ channel_cmds3 1 @ [nl ''CURVe?''])
        (Suc (Suc (Suc 7))) [])"
    by (simp only: channel_loop.simps demo_acquire_advanced [OF demo_session_replies]
        prod.case sum.case demo_store_smooth)
  show ?thesis
    by (simp only: session_eq [OF smooth_env_port] idn smooth_env_fields option.case ACQ_CH_1
        opened_smooth loop prod.case sum.case simp_thms if_False)
qed

lemma read_preamble_13:
  "read_preamble L [f0, f1, f2, f3, f4, f5, f6, f7, f8, f9, f10, f11, f12] =
     bindE (to_float L f8) (\<lambda>xinc. bindE (to_float L f10) (\<lambda>xzero. Inl IndexError))"
  by (simp add: read_preamble_def index_def bindE_Inr bindE_Inl)

lemma short_fields:
  "split_on CHR '';'' short_preamble =
     [''2'', ''16'', ''ASC'', ''RP'', ''MSB'', ''3'', ''Ch2'', ''Y'', ''1e-6'', ''0'', ''0'', ''s'', ''0.04'']"
  by (simp add: short_preamble_def)

lemma short_read_preamble: "read_preamble ieee (split_on CHR '';'' short_preamble) = Inl IndexError"
  by (simp only: short_fields read_preamble_13 demo_to_float bindE_Inr)

lemma short_length: "length (split_on CHR '';'' short_preamble) < 16"
  by (simp add: short_fields)

lemma four_env_fields:
  "smooth four_env = False" "timestamp four_env = demo_now" "save_path_arg four_env = None"
  "channels four_env = Some ''1234''"
  by (simp_all add: four_env_def demo_env_def)

lemma four_replies:
  "reply (opened four_env :: rat state) 0 = IDN_expected"
  "reply (opened four_env :: rat state) 7 = ''CH1''"
  "reply (opened four_env :: rat state) (Suc 7) = demo_preamble"
  "reply (opened four_env :: rat state) (Suc (Suc 7)) = ''100,200,300''"
  "reply (opened four_env :: rat state) (Suc (Suc (Suc (Suc 7)))) = short_preamble"
  by (simp_all add: reply_def four_env_def demo_env_def setup_replies_def demo_replies_def
      later_replies_def nl_def strip_last_def)

lemma four_pending:
  "drop 12 (replies four_env) = later_replies"
  by (simp add: four_env_def demo_env_def setup_replies_def demo_replies_def)

lemma ACQ_CH_1234: "ACQ_CH (Some ''1234'') = [1, 2, 3, 4]"
  by (simp add: ACQ_CH_Some)

lemma four_first_channel:
  "channel_loop ieee stand_in_fit False demo_now ''.'' [1] four_start =
     (Inr (),
      advanced (opened four_env)
        (([nl ''*CLS'', nl ''*IDN?''] @ config_cmds) @ channel_cmds3 1 @ [nl ''CURVe?''])
        (Suc (Suc (Suc 7))) [demo_file])"
  by (simp only: four_start_def channel_loop.simps demo_acquire_advanced [OF four_replies(2-4)]
      prod.case sum.case store_channel_plain add_file_advanced append_Nil demo_file_def)

lemma four_loop:
  "channel_loop ieee stand_in_fit False demo_now ''.'' [1, 2, 3, 4] four_start =
     (Inl IndexError,
      advanced (opened four_env)
        ((([nl ''*CLS'', nl ''*IDN?''] @ config_cmds) @ channel_cmds3 1 @ [nl ''CURVe?'']) @
           channel_cmds3 2)
        (Suc (Suc (Suc (Suc (Suc 7))))) [demo_file])"
proof -
  have "channel_loop ieee stand_in_fit False demo_now ''.'' ([1] @ [2, 3, 4]) four_start =
      channel_loop ieee stand_in_fit False demo_now ''.'' [2, 3, 4]
        (advanced (opened four_env)
          (([nl ''*CLS'', nl ''*IDN?''] @ config_cmds) @ channel_cmds3 1 @ [nl ''CURVe?''])
          (Suc (Suc (Suc 7))) [demo_file])"
    by (simp only: channel_loop_append four_first_channel prod.case sum.case)
  also have "\<dots> =
     (Inl IndexError,
      advanced (opened four_env)
        ((([nl ''*CLS'', nl ''*IDN?''] @ config_cmds) @ channel_cmds3 1 @ [nl ''CURVe?'']) @
           channel_cmds3 2)
        (Suc (Suc (Suc (Suc (Suc 7))))) [demo_file])"
    by (simp only: channel_loop.simps acquire_channel_advanced four_replies(5)
        short_read_preamble sum.case prod.case)
  finally show ?thesis by (simp only: append.simps)
qed

lemma four_session:
  "session ieee stand_in_fit four_env =
     (Raised IndexError,
      advanced (opened four_env)
        ((([nl ''*CLS'', nl ''*IDN?''] @ config_cmds) @ channel_cmds3 1 @ [nl ''CURVe?'']) @
           channel_cmds3 2)
        (Suc (Suc (Suc (Suc (Suc 7))))) [demo_file])"
  by (simp only: session_eq [OF four_env_port] four_replies(1) four_env_fields option.case
      ACQ_CH_1234 four_loop [unfolded four_start_def] prod.case sum.case simp_thms if_False)

lemma four_start_eq: "four_start = loop_start four_env"
  by (simp only: four_start_def loop_start_eq)

lemma four_channels: "ACQ_CH (channels four_env) = [1] @ 2 # [3, 4]"
  by (simp add: four_env_fields ACQ_CH_1234)

section \<open>C1: the calibrated voltage\<close>

text \<open>
  C1, as stated: the persisted calibrated voltage is
  \<^verbatim>\<open>round(round(s * y_multiplier, 15) - y_position, 15)\<close>, the scaled sample being
  rounded to 15 decimals before the position is subtracted. The script subtracts from the
  unrounded product. With the multiplier \<open>1e-16\<close>, the raw position \<open>-2\<close> and the sample
  \<open>4\<close>, the script persists \<open>1e-15\<close> (from \<open>4e-16 + 2e-16\<close>), where the formula of the
  claim gives \<open>0\<close> (the product \<open>4e-16\<close> rounds to \<open>0\<close> first), with numpy's rounding
  and with the built-in one alike.
\<close>

theorem C1_inner_rounding_counterexample:
  "parse_float ieee ''4'' = Some 4 \<and>
   parse_float ieee ''1e-16'' = Some (dbl (1 / 10 ^ 16)) \<and>
   parse_float ieee ''-2'' = Some (- 2) \<and>
   files (snd (channel_loop ieee stand_in_fit False demo_now ''.'' [1] tiny_state)) =
     [(''./2026-01-15 10-30-00 CH1.csv'',
       [[TextList (split_on CHR '';'' tiny_preamble)],
        [Text ''Time, s'', Text ''Voltage, V''],
        [Num 0, Num (dbl (1 / 10 ^ 15))]])] \<and>
   spec_calibrated ieee 4 (dbl (1 / 10 ^ 16)) (fmul ieee (- 2) (dbl (1 / 10 ^ 16))) = 0 \<and>
   py_round ieee (fsub ieee (py_round ieee (fmul ieee 4 (dbl (1 / 10 ^ 16))) 15)
                    (fmul ieee (- 2) (dbl (1 / 10 ^ 16)))) 15 = 0 \<and>
   dbl (1 / 10 ^ 15) \<noteq> 0"
  by (simp only: tiny_files spec_calibrated_def ieee_sel tiny_floats tiny_products
      tiny_spec_value tiny_spec_value_py tiny_differ simp_thms)

text \<open>
  C1, amended: for every preamble and curve that the script decodes, the persisted
  calibrated voltage of each sample \<open>s\<close> is \<^verbatim>\<open>round(s * y_multiplier - y_position, 15)\<close>
  with \<open>y_position\<close> the raw position field (index 14) times \<open>y_multiplier\<close> (index 12):
  the product is not rounded before the subtraction, and the one rounding is numpy's.
  The rows of the file, after its two header rows, pair these values with the time axis
  (and with the smoothed series when smoothing is on).
\<close>

theorem C1_calibrated_voltage:
  assumes "acquire_channel L now sp ch s = (Inr d, s1)"
      and "store_channel L fit sm d s1 = (Inr u, s2)"
  shows "\<exists>ym pos samples calibrated rows.
           parse_float L (split_on CHR '';'' (reply s 1) ! 12) = Some ym \<and>
           parse_float L (split_on CHR '';'' (reply s 1) ! 14) = Some pos \<and>
           map (parse_float L) (split_on CHR '','' (reply s 2)) = map Some samples \<and>
           calibrated = map (\<lambda>v. np_round L (fsub L (fmul L v ym) (fmul L pos ym)) 15) samples \<and>
           files s2 = files s1 @ [(filename d, rows)] \<and>
           drop 2 rows =
             (if sm then rows3 (ch_data_X d) calibrated (fit (ch_data_Y d) smooth_window smooth_order)
              else rows2 (ch_data_X d) calibrated)"
  using calibrated_series [OF assms(1)] store_channel_Inr [OF assms(2)] by metis

text \<open>C1, amended, at the worked channel (smoothing off).\<close>

theorem C1_calibrated_voltage_witness:
  "acquire_channel ieee demo_now ''.'' 1 demo_state =
     (Inr demo_data, advanced demo_state (channel_cmds3 1 @ [nl ''CURVe?'']) 3 []) \<and>
   store_channel ieee stand_in_fit False demo_data
       (advanced demo_state (channel_cmds3 1 @ [nl ''CURVe?'']) 3 []) =
     (Inr (), snd (store_channel ieee stand_in_fit False demo_data
                     (advanced demo_state (channel_cmds3 1 @ [nl ''CURVe?'']) 3 []))) \<and>
   (\<exists>ym pos samples calibrated rows.
      parse_float ieee (split_on CHR '';'' (reply demo_state 1) ! 12) = Some ym \<and>
      parse_float ieee (split_on CHR '';'' (reply demo_state 1) ! 14) = Some pos \<and>
      map (parse_float ieee) (split_on CHR '','' (reply demo_state 2)) = map Some samples \<and>
      calibrated = map (\<lambda>v. np_round ieee (fsub ieee (fmul ieee v ym) (fmul ieee pos ym)) 15) samples \<and>
      files (snd (store_channel ieee stand_in_fit False demo_data
                    (advanced demo_state (channel_cmds3 1 @ [nl ''CURVe?'']) 3 []))) =
        files (advanced demo_state (channel_cmds3 1 @ [nl ''CURVe?'']) 3 []) @
          [(filename demo_data, rows)] \<and>
      drop 2 rows =
        (if False
         then rows3 (ch_data_X demo_data) calibrated
                (stand_in_fit (ch_data_Y demo_data) smooth_window smooth_order)
         else rows2 (ch_data_X demo_data) calibrated))"
  using C1_calibrated_voltage [OF demo_acquire demo_store] demo_acquire demo_store by blast

section \<open>C2: the time axis\<close>

text \<open>
  C2: for every preamble and curve that the script decodes, the time axis has one entry
  per token of the curve, and entry \<open>i\<close> is exactly
  \<^verbatim>\<open>round(float(i) * x_increment + x_zero, 15)\<close>, with \<open>x_increment\<close> and \<open>x_zero\<close>
  the fields 8 and 10 of the preamble.
\<close>

theorem C2_time_axis:
  assumes "acquire_channel L now sp ch s = (Inr d, s1)"
  shows "\<exists>xinc xzero.
           parse_float L (split_on CHR '';'' (reply s 1) ! 8) = Some xinc \<and>
           parse_float L (split_on CHR '';'' (reply s 1) ! 10) = Some xzero \<and>
           length (ch_data_X d) = length (split_on CHR '','' (reply s 2)) \<and>
           (\<forall>i < length (ch_data_X d).
              ch_data_X d ! i = py_round L (fadd L (fmul L (float_of_nat L i) xinc) xzero) 15)"
proof -
  from acquire_channel_Inr [OF assms]
  have cf: "ch_conf d = split_on CHR '';'' (reply s 1)"
    and p: "read_preamble L (ch_conf d) = Inr (conf d)"
    and y: "decode_Y L (YMULTiplier (conf d)) (reply s 2) = Inr (ch_data_Y d)"
    and x: "ch_data_X d = decode_X L (XINCRement (conf d)) (XZERO (conf d)) (length (ch_data_Y d))"
    by blast+
  from y obtain samples where
    "map (parse_float L) (split_on CHR '','' (reply s 2)) = map Some samples"
    "ch_data_Y d = map (\<lambda>v. fmul L v (YMULTiplier (conf d))) samples"
    unfolding decode_Y_def by (blast dest: scale_tokens_Inr)
  then have len: "length (ch_data_Y d) = length (split_on CHR '','' (reply s 2))"
    by (metis length_map)
  from read_preamble_Inr [OF p] cf
  have "parse_float L (split_on CHR '';'' (reply s 1) ! 8) = Some (XINCRement (conf d))"
    and "parse_float L (split_on CHR '';'' (reply s 1) ! 10) = Some (XZERO (conf d))"
    by simp_all
  moreover have "length (ch_data_X d) = length (split_on CHR '','' (reply s 2))"
    using x len by (simp add: decode_X_def)
  moreover have "\<forall>i < length (ch_data_X d).
      ch_data_X d ! i =
        py_round L (fadd L (fmul L (float_of_nat L i) (XINCRement (conf d))) (XZERO (conf d))) 15"
    using x by (simp add: decode_X_def)
  ultimately show ?thesis by blast
qed

text \<open>C2 at the worked channel.\<close>

theorem C2_time_axis_witness:
  "acquire_channel ieee demo_now ''.'' 1 demo_state =
     (Inr demo_data, advanced demo_state (channel_cmds3 1 @ [nl ''CURVe?'']) 3 []) \<and>
   (\<exists>xinc xzero.
      parse_float ieee (split_on CHR '';'' (reply demo_state 1) ! 8) = Some xinc \<and>
      parse_float ieee (split_on CHR '';'' (reply demo_state 1) ! 10) = Some xzero \<and>
      length (ch_data_X demo_data) = length (split_on CHR '','' (reply demo_state 2)) \<and>
      (\<forall>i < length (ch_data_X demo_data).
         ch_data_X demo_data ! i =
           py_round ieee (fadd ieee (fmul ieee (float_of_nat ieee i) xinc) xzero) 15))"
  using C2_time_axis [OF demo_acquire] demo_acquire by blast

section \<open>C3: equal lengths\<close>

text \<open>
  C3: for every channel whose preamble and curve decode, the time axis, the scaled
  (raw-voltage) series and the calibrated series have the same length, the number of
  comma-separated tokens of the curve response, which is one more than its commas.
\<close>

theorem C3_equal_lengths:
  assumes "acquire_channel L now sp ch s = (Inr d, s1)"
  shows "length (ch_data_X d) = length (split_on CHR '','' (reply s 2)) \<and>
         length (ch_data_Y d) = length (split_on CHR '','' (reply s 2)) \<and>
         length (remove_offset L (YOFF (conf d)) (ch_data_Y d)) = length (split_on CHR '','' (reply s 2)) \<and>
         length (split_on CHR '','' (reply s 2)) = Suc (count_list (reply s 2) CHR '','')"
proof -
  from acquire_channel_Inr [OF assms]
  have y: "decode_Y L (YMULTiplier (conf d)) (reply s 2) = Inr (ch_data_Y d)"
    and x: "ch_data_X d = decode_X L (XINCRement (conf d)) (XZERO (conf d)) (length (ch_data_Y d))"
    by blast+
  from y obtain samples where
    "map (parse_float L) (split_on CHR '','' (reply s 2)) = map Some samples"
    "ch_data_Y d = map (\<lambda>v. fmul L v (YMULTiplier (conf d))) samples"
    unfolding decode_Y_def by (blast dest: scale_tokens_Inr)
  then have "length (ch_data_Y d) = length (split_on CHR '','' (reply s 2))"
    by (metis length_map)
  with x show ?thesis
    by (simp add: decode_X_def remove_offset_def length_split_on)
qed

text \<open>C3 at the worked channel.\<close>

theorem C3_equal_lengths_witness:
  "acquire_channel ieee demo_now ''.'' 1 demo_state =
     (Inr demo_data, advanced demo_state (channel_cmds3 1 @ [nl ''CURVe?'']) 3 []) \<and>
   length (ch_data_X demo_data) = length (split_on CHR '','' (reply demo_state 2)) \<and>
   length (ch_data_Y demo_data) = length (split_on CHR '','' (reply demo_state 2)) \<and>
   length (remove_offset ieee (YOFF (conf demo_data)) (ch_data_Y demo_data)) =
     length (split_on CHR '','' (reply demo_state 2)) \<and>
   length (split_on CHR '','' (reply demo_state 2)) = Suc (count_list (reply demo_state 2) CHR '','')"
  using C3_equal_lengths [OF demo_acquire] demo_acquire by blast

section \<open>C4: the end-to-end scenario\<close>

text \<open>
  C4: with x-increment \<open>1e-6\<close>, x-zero \<open>0\<close>, y-multiplier \<open>0.04\<close>, raw position
  \<open>512\<close> and the curve \<open>100,200,300\<close>, the pipeline yields the times
  \<open>0, 1e-6, 2e-6\<close>, the raw voltages \<open>4.0, 8.0, 12.0\<close> and the calibrated voltages
  \<open>-16.48, -12.48, -8.48\<close>: each the binary64 float that the decimal literal denotes.
\<close>

theorem C4_end_to_end:
  "fst (acquire_channel ieee demo_now ''.'' 1 demo_state) = Inr demo_data \<and>
   XINCRement (conf demo_data) = dbl (1 / 10 ^ 6) \<and> XZERO (conf demo_data) = 0 \<and>
   YMULTiplier (conf demo_data) = dbl (4 / 100) \<and> YOFF (conf demo_data) = dbl (2048 / 100) \<and>
   ch_data_X demo_data = [0, dbl (1 / 10 ^ 6), dbl (2 / 10 ^ 6)] \<and>
   ch_data_Y demo_data = [4, 8, 12] \<and>
   remove_offset ieee (YOFF (conf demo_data)) (ch_data_Y demo_data) =
     [dbl (- 1648 / 100), dbl (- 1248 / 100), dbl (- 848 / 100)] \<and>
   files (snd (channel_loop ieee stand_in_fit False demo_now ''.'' [1] demo_state)) =
     [(''./2026-01-15 10-30-00 CH1.csv'',
       [[TextList (split_on CHR '';'' demo_preamble)],
        [Text ''Time, s'', Text ''Voltage, V''],
        [Num 0, Num (dbl (- 1648 / 100))],
        [Num (dbl (1 / 10 ^ 6)), Num (dbl (- 1248 / 100))],
        [Num (dbl (2 / 10 ^ 6)), Num (dbl (- 848 / 100))]])]"
  by (simp only: demo_acquire fst_conv demo_data_sel demo_conf_sel demo_remove_offset
      demo_files simp_thms)

section \<open>C5: channel selection\<close>

text \<open>
  C5, as stated: the specifiers \<open>"134"\<close> and \<open>"24"\<close> select \<open>[1,3,4]\<close> and \<open>[2,4]\<close>,
  and an empty or digit-free specifier selects the default \<open>[1,2]\<close>. The last part fails:
  the default replaces only an absent option; the empty specifier selects no channel.
\<close>

theorem C5_empty_specifier_counterexample:
  "ACQ_CH (Some []) = [] \<and> ACQ_CH (Some ''xyz'') = [] \<and> ACQ_CH (Some []) \<noteq> [1, 2]"
  by (simp add: ACQ_CH_Some)

text \<open>
  C5, amended: \<open>"134"\<close> selects \<open>[1,3,4]\<close> and \<open>"24"\<close> selects \<open>[2,4]\<close>, in ascending
  order; an absent specifier selects the default \<open>[1,2]\<close>; a specifier that is given and
  contains none of the digits 1-4 (the empty one included) selects no channel at all.
\<close>

theorem C5_channel_selection:
  "ACQ_CH (Some ''134'') = [1, 3, 4] \<and> ACQ_CH (Some ''24'') = [2, 4] \<and> ACQ_CH None = [1, 2] \<and>
   (\<forall>c. set c \<inter> {CHR ''1'', CHR ''2'', CHR ''3'', CHR ''4''} = {} \<longrightarrow> ACQ_CH (Some c) = [])"
proof -
  have "ACQ_CH None = ACQ_CH (Some ''12'')" by (simp add: ACQ_CH_def)
  then show ?thesis by (auto simp: ACQ_CH_Some)
qed

theorem C5_channel_selection_witness:
  "set ''a,b'' \<inter> {CHR ''1'', CHR ''2'', CHR ''3'', CHR ''4''} = {} \<and> ACQ_CH (Some ''a,b'') = []"
proof -
  have h: "set ''a,b'' \<inter> {CHR ''1'', CHR ''2'', CHR ''3'', CHR ''4''} = {}" by simp
  from C5_channel_selection have "ACQ_CH (Some ''a,b'') = []" using h by blast
  with h show ?thesis by blast
qed

section \<open>C6: a malformed preamble\<close>

text \<open>
  C6, as stated: with a malformed preamble on channel 2 of a four-channel selection,
  channel 2 is skipped and channels 1, 3 and 4 still produce records. In the script the
  exception of channel 2 ends the run: channel 1 alone has a file, the replies for
  channels 3 and 4 stay unread, and the port is left open.
\<close>

theorem C6_isolation_counterexample:
  "ACQ_CH (channels four_env) = [1, 2, 3, 4] \<and>
   fst (session ieee stand_in_fit four_env) = Raised IndexError \<and>
   map fst (files (snd (session ieee stand_in_fit four_env))) = [''./2026-01-15 10-30-00 CH1.csv''] \<and>
   pending (snd (session ieee stand_in_fit four_env)) = later_replies \<and>
   is_open (snd (session ieee stand_in_fit four_env)) = True"
  by (simp add: four_session four_env_fields ACQ_CH_1234 four_pending demo_file_def demo_data_sel)

text \<open>
  C6, amended: in a run that reaches the loop, a malformed preamble (fewer than 16 fields,
  or a numeric field 8, 10, 12, 13 or 14 that is not a number) ends the session with an
  IndexError or a ValueError at the channel where it occurs: the channels before it keep
  their files, the failed channel gets no file, and the channels after it are not
  processed (after the preamble query of the failed channel nothing more is written to
  the port, and the later replies stay unread).
\<close>

theorem C6_malformed_preamble_ends_session:
  assumes "COMport E \<in> set (comports E)" and "port_open E = OpenedTrue"
      and "reply (init_state E :: 'f state) 0 = IDN_expected"
      and "ACQ_CH (channels E) = before @ ch # after"
      and "channel_loop (L :: 'f lib) fit (smooth E) (timestamp E)
             (case save_path_arg E of None \<Rightarrow> ''.'' | Some d \<Rightarrow> d) before (loop_start E) =
           (Inr u, s1)"
      and "length (split_on CHR '';'' (reply s1 1)) < 16 \<or>
           (\<exists>k \<in> {8, 10, 12, 13, 14}.
              parse_float L (split_on CHR '';'' (reply s1 1) ! k) = None)"
  shows "\<exists>e s2. session L fit E = (Raised e, s2) \<and>
           (e = IndexError \<or> e = ValueError) \<and>
           files s2 = files s1 \<and> is_open s2 = True \<and>
           written s2 = written s1 @ [nl (''DATa:SOU CH'' @ str_nat ch), nl ''DATa:SOU?'',
                                       nl ''WFMPre?''] \<and>
           pending s2 = drop 2 (pending s1)"
proof -
  from loop_malformed_preamble [OF assms(5,6), of ch after] obtain e where
    loop: "channel_loop L fit (smooth E) (timestamp E)
             (case save_path_arg E of None \<Rightarrow> ''.'' | Some d \<Rightarrow> d) (before @ ch # after)
             (loop_start E) = (Inl e, advanced s1 (channel_cmds3 ch) 2 [])"
    and e: "e = IndexError \<or> e = ValueError"
    by blast
  have idn: "reply (opened E :: 'f state) 0 = IDN_expected"
    by (simp only: opened_reply assms(3))
  have "session L fit E = (Raised e, advanced s1 (channel_cmds3 ch) 2 [])"
    using loop by (simp add: session_eq [OF assms(1,2)] idn assms(4) loop_start_eq)
  moreover have "is_open s1 = True"
    using channel_loop_is_open [OF assms(5)] by (simp add: loop_start_is_open)
  ultimately show ?thesis
    using e by (simp add: channel_cmds3_def)
qed

text \<open>C6, amended, at the four-channel run: channel 1 is read, channel 2 fails.\<close>

theorem C6_malformed_preamble_ends_session_witness:
  "COMport four_env \<in> set (comports four_env) \<and> port_open four_env = OpenedTrue \<and>
   reply (init_state four_env :: rat state) 0 = IDN_expected \<and>
   ACQ_CH (channels four_env) = [1] @ 2 # [3, 4] \<and>
   channel_loop ieee stand_in_fit False demo_now ''.'' [1] (loop_start four_env) =
     (Inr (), snd (channel_loop ieee stand_in_fit False demo_now ''.'' [1] (loop_start four_env))) \<and>
   length (split_on CHR '';''
      (reply (snd (channel_loop ieee stand_in_fit False demo_now ''.'' [1] (loop_start four_env))) 1))
     < 16 \<and>
   (\<exists>e s2. session ieee stand_in_fit four_env = (Raised e, s2) \<and>
      (e = IndexError \<or> e = ValueError) \<and>
      files s2 =
        files (snd (channel_loop ieee stand_in_fit False demo_now ''.'' [1] (loop_start four_env))) \<and>
      is_open s2 = True \<and>
      written s2 =
        written (snd (channel_loop ieee stand_in_fit False demo_now ''.'' [1] (loop_start four_env))) @
          [nl (''DATa:SOU CH'' @ str_nat 2), nl ''DATa:SOU?'', nl ''WFMPre?''] \<and>
      pending s2 =
        drop 2 (pending (snd (channel_loop ieee stand_in_fit False demo_now ''.'' [1]
                                (loop_start four_env)))))"
proof -
  let ?s1 = "snd (channel_loop ieee stand_in_fit False demo_now ''.'' [1] (loop_start four_env))"
  have h1: "channel_loop ieee stand_in_fit False demo_now ''.'' [1] (loop_start four_env) =
      (Inr (), ?s1)"
    by (simp only: four_start_eq [symmetric] four_first_channel snd_conv)
  have h1': "channel_loop ieee stand_in_fit (smooth four_env) (timestamp four_env)
      (case save_path_arg four_env of None \<Rightarrow> ''.'' | Some d \<Rightarrow> d) [1] (loop_start four_env) =
      (Inr (), ?s1)"
    using h1 by (simp only: four_env_fields option.case)
  have "reply ?s1 1 = reply (opened four_env :: rat state) (Suc (Suc (Suc 7)) + 1)"
    by (rule reply_shift)
      (simp only: four_start_eq [symmetric] four_first_channel snd_conv advanced_fields)
  then have "reply ?s1 1 = short_preamble"
    using four_replies(5) by simp
  then have h2: "length (split_on CHR '';'' (reply ?s1 1)) < 16"
    using short_length by simp
  then have h2': "length (split_on CHR '';'' (reply ?s1 1)) < 16 \<or>
     (\<exists>k \<in> {8, 10, 12, 13, 14}. parse_float ieee (split_on CHR '';'' (reply ?s1 1) ! k) = None)"
    by blast
  have idn: "reply (init_state four_env :: rat state) 0 = IDN_expected"
    using four_replies(1) by (simp only: opened_reply)
  from C6_malformed_preamble_ends_session [OF four_env_port idn four_channels h1' h2']
       four_env_port idn four_channels h1 h2
  show ?thesis by blast
qed

section \<open>C7: the identification check\<close>

text \<open>
  C7: on a port that exists and opens, a reply to \<^verbatim>\<open>*IDN?\<close> that equals the expected
  literal once its last character is removed lets the run go on: the ten set-up commands
  follow. Any other reply (so any reply that differs in a single character) ends the run
  through \<^verbatim>\<open>sys.exit()\<close>, and nothing is written after the identification query.
\<close>

theorem C7_identification_gate:
  assumes "COMport E \<in> set (comports E)" and "port_open E = OpenedTrue"
  shows "(reply (init_state E :: 'f state) 0 = IDN_expected \<longrightarrow>
            take 12 (written (snd (session (L :: 'f lib) fit E))) =
              [nl ''*CLS'', nl ''*IDN?'', nl ''WFMPre:BIT_Nr 16'', nl ''WFMPre:BIT_Nr?'',
               nl ''DATa:WIDth?'', nl ''WFMPre:ENCdg ASC'', nl ''WFMPre:ENCdg?'', nl ''HORizontal?'',
               nl ''DATa:STARt 1'', nl ''DATa:STARt?'', nl ''DATa:STOP 10000'', nl ''DATa:STOP?'']) \<and>
         (reply (init_state E :: 'f state) 0 \<noteq> IDN_expected \<longrightarrow>
            fst (session L fit E) = SysExit \<and>
            written (snd (session L fit E)) = [nl ''*CLS'', nl ''*IDN?''] \<and>
            files (snd (session L fit E)) = [])"
proof -
  have r: "reply (init_state E :: 'f state) 0 = reply (opened E :: 'f state) 0"
    by (simp add: reply_def init_state_def)
  show ?thesis
  proof (intro conjI impI)
    assume ok: "reply (init_state E :: 'f state) 0 = IDN_expected"
    let ?A = "advanced (opened E :: 'f state) ([nl ''*CLS'', nl ''*IDN?''] @ config_cmds) 7 []"
    obtain res s3 where loop:
      "channel_loop L fit (smooth E) (timestamp E)
         (case save_path_arg E of None \<Rightarrow> ''.'' | Some d \<Rightarrow> d) (ACQ_CH (channels E)) ?A = (res, s3)"
      by (cases "channel_loop L fit (smooth E) (timestamp E)
         (case save_path_arg E of None \<Rightarrow> ''.'' | Some d \<Rightarrow> d) (ACQ_CH (channels E)) ?A") blast
    from channel_loop_written [OF loop] obtain ws where
      ws: "written s3 = ([nl ''*CLS'', nl ''*IDN?''] @ config_cmds) @ ws" by auto
    have "written (snd (session L fit E)) = written s3"
      using ok r loop by (cases res) (simp_all add: session_eq [OF assms])
    with ws show "take 12 (written (snd (session L fit E))) =
              [nl ''*CLS'', nl ''*IDN?'', nl ''WFMPre:BIT_Nr 16'', nl ''WFMPre:BIT_Nr?'',
               nl ''DATa:WIDth?'', nl ''WFMPre:ENCdg ASC'', nl ''WFMPre:ENCdg?'', nl ''HORizontal?'',
               nl ''DATa:STARt 1'', nl ''DATa:STARt?'', nl ''DATa:STOP 10000'', nl ''DATa:STOP?'']"
      by (simp add: config_cmds_def)
  next
    assume bad: "reply (init_state E :: 'f state) 0 \<noteq> IDN_expected"
    then have s: "session L fit E = (SysExit, advanced (opened E) [nl ''*CLS'', nl ''*IDN?''] 1 [])"
      using r by (simp add: session_eq [OF assms])
    show "fst (session L fit E) = SysExit" by (simp add: s)
    show "written (snd (session L fit E)) = [nl ''*CLS'', nl ''*IDN?'']" by (simp add: s)
    show "files (snd (session L fit E)) = []" by (simp add: s)
  qed
qed

text \<open>C7 at a run with the expected identification and at one with \<open>v3.28\<close> for \<open>v3.29\<close>.\<close>

theorem C7_identification_gate_witness:
  "COMport demo_env \<in> set (comports demo_env) \<and> port_open demo_env = OpenedTrue \<and>
   reply (init_state demo_env :: rat state) 0 = IDN_expected \<and>
   take 12 (written (snd (session ieee stand_in_fit demo_env))) =
     [nl ''*CLS'', nl ''*IDN?'', nl ''WFMPre:BIT_Nr 16'', nl ''WFMPre:BIT_Nr?'',
      nl ''DATa:WIDth?'', nl ''WFMPre:ENCdg ASC'', nl ''WFMPre:ENCdg?'', nl ''HORizontal?'',
      nl ''DATa:STARt 1'', nl ''DATa:STARt?'', nl ''DATa:STOP 10000'', nl ''DATa:STOP?''] \<and>
   COMport wrong_idn_env \<in> set (comports wrong_idn_env) \<and> port_open wrong_idn_env = OpenedTrue \<and>
   reply (init_state wrong_idn_env :: rat state) 0 \<noteq> IDN_expected \<and>
   fst (session ieee stand_in_fit wrong_idn_env) = SysExit \<and>
   written (snd (session ieee stand_in_fit wrong_idn_env)) = [nl ''*CLS'', nl ''*IDN?''] \<and>
   files (snd (session ieee stand_in_fit wrong_idn_env)) = []"
proof -
  have bad: "reply (init_state wrong_idn_env :: rat state) 0 \<noteq> IDN_expected"
    by (simp only: wrong_idn_env_idn not_False_eq_True)
  from C7_identification_gate [OF demo_env_port, of ieee stand_in_fit]
       C7_identification_gate [OF wrong_idn_env_port, of ieee stand_in_fit]
       demo_env_port wrong_idn_env_port demo_env_idn bad
  show ?thesis by blast
qed

section \<open>C8: closing the port\<close>

text \<open>
  Where the port ends up on each path. When the port is not among the enumerated ones, or
  \<^verbatim>\<open>ser.open()\<close> fails, the run ends with the port never opened; a run that
  completes closes it at line 162.
\<close>

lemma session_port_not_found:
  "COMport E \<notin> set (comports E) \<Longrightarrow> session L fit E = (SysExit, init_state E)"
  by (simp add: session_def)

lemma session_open_fails:
  assumes "COMport E \<in> set (comports E)" and "port_open E \<noteq> OpenedTrue"
  shows "fst (session L fit E) \<in> {SysExit, Raised SerialException} \<and>
         snd (session L fit E) = init_state E"
  using assms by (cases "port_open E") (simp_all add: session_def)

lemma init_state_closed: "is_open (init_state E) = False"
  by (simp add: init_state_def)

lemma session_completed_closed:
  assumes "fst (session L fit E) = Completed"
  shows "is_open (snd (session L fit E)) = False"
proof (cases "COMport E \<in> set (comports E) \<and> port_open E = OpenedTrue")
  case True
  then have p: "COMport E \<in> set (comports E)" "port_open E = OpenedTrue" by simp_all
  show ?thesis
    using assms unfolding session_eq [OF p]
    by (auto split: if_splits prod.splits sum.splits)
next
  case False
  with assms show ?thesis
    by (cases "port_open E") (auto simp: session_def Let_def split: if_splits)
qed

lemma session_mismatch_open:
  assumes "COMport E \<in> set (comports E)" and "port_open E = OpenedTrue"
      and "reply (init_state E :: 'f state) 0 \<noteq> IDN_expected"
  shows "session (L :: 'f lib) fit E =
           (SysExit, advanced (opened E) [nl ''*CLS'', nl ''*IDN?''] 1 []) \<and>
         is_open (snd (session L fit E)) = True"
proof -
  have "reply (opened E :: 'f state) 0 = reply (init_state E :: 'f state) 0"
    by (simp add: reply_def init_state_def)
  with assms(3) show ?thesis
    by (simp add: session_eq [OF assms(1,2)])
qed

text \<open>
  C8: every exit path closes the serial connection. The exit of line 76, after an
  identification mismatch, does not: the port was opened at line 65 and
  \<^verbatim>\<open>ser.close()\<close> is reached at line 162 only.
\<close>

theorem C8_mismatch_exit_leaves_port_open:
  "fst (session ieee stand_in_fit wrong_idn_env) = SysExit \<and>
   is_open (snd (session ieee stand_in_fit wrong_idn_env)) = True \<and>
   written (snd (session ieee stand_in_fit wrong_idn_env)) = [nl ''*CLS'', nl ''*IDN?'']"
  by (simp add: session_eq [OF wrong_idn_env_port] opened_reply wrong_idn_env_idn)

section \<open>C9: the smoothing parameters\<close>

text \<open>
  C9, as stated: a series shorter than the window makes the smoothing fail before any
  channel work begins. In the script the rejection comes from the library call of line
  138, inside the loop: with smoothing on and a curve of three samples, the session has
  already selected the source and queried the preamble and the curve of channel 1 when
  the exception ends it.
\<close>

theorem C9_late_rejection_counterexample:
  "smooth smooth_env = True \<and>
   fst (session ieee stand_in_fit smooth_env) = Raised ValueError \<and>
   drop 12 (written (snd (session ieee stand_in_fit smooth_env))) =
     [nl ''DATa:SOU CH1'', nl ''DATa:SOU?'', nl ''WFMPre?'', nl ''CURVe?''] \<and>
   files (snd (session ieee stand_in_fit smooth_env)) = []"
  by (simp add: smooth_session smooth_env_fields config_cmds_def channel_cmds3_def str_nat_Suc_0)

text \<open>
  C9, amended: the script checks nothing itself. Its window 11 is odd and greater than its
  order 2 by construction, and a series shorter than the window is rejected by the
  library's filter alone, inside the loop: with smoothing on, a channel that decodes to
  fewer than 11 samples ends the loop with a ValueError after the four commands of
  that channel (source, source query, preamble query, curve query) were written, and no
  file is written for it.
\<close>

theorem C9_smoothing_rejected_inside_loop:
  assumes "acquire_channel L now sp ch s = (Inr d, s1)"
      and "length (ch_data_Y d) < smooth_window"
  shows "odd smooth_window \<and> smooth_order < smooth_window \<and>
         channel_loop L fit True now sp (ch # rest) s = (Inl ValueError, s1) \<and>
         written s1 = written s @ [nl (''DATa:SOU CH'' @ str_nat ch), nl ''DATa:SOU?'',
                                    nl ''WFMPre?'', nl ''CURVe?''] \<and>
         files s1 = files s"
  using assms acquire_channel_Inr [OF assms(1)] smooth_consts
  by (simp add: store_channel_smooth channel_cmds3_def)

text \<open>C9, amended, at the worked channel of three samples.\<close>

theorem C9_smoothing_rejected_inside_loop_witness:
  "acquire_channel ieee demo_now ''.'' 1 demo_state =
     (Inr demo_data, advanced demo_state (channel_cmds3 1 @ [nl ''CURVe?'']) 3 []) \<and>
   length (ch_data_Y demo_data) < smooth_window \<and>
   odd smooth_window \<and> smooth_order < smooth_window \<and>
   channel_loop ieee stand_in_fit True demo_now ''.'' [1] demo_state =
     (Inl ValueError, advanced demo_state (channel_cmds3 1 @ [nl ''CURVe?'']) 3 []) \<and>
   written (advanced demo_state (channel_cmds3 1 @ [nl ''CURVe?'']) 3 []) =
     written demo_state @ [nl (''DATa:SOU CH'' @ str_nat 1), nl ''DATa:SOU?'', nl ''WFMPre?'',
                           nl ''CURVe?''] \<and>
   files (advanced demo_state (channel_cmds3 1 @ [nl ''CURVe?'']) 3 []) = files demo_state"
proof -
  have len: "length (ch_data_Y demo_data) < smooth_window"
    by (simp add: demo_data_sel smooth_window_def)
  from C9_smoothing_rejected_inside_loop [OF demo_acquire len, of stand_in_fit "[]"]
       demo_acquire len
  show ?thesis by blast
qed

section \<open>C10: the smoothed series\<close>




end
